theory Spec2Isabelle
  imports Complex_Main
begin

section \<open>Strings and digits\<close>

text \<open>
  A JavaScript string is modelled as a HOL \<open>string\<close>; each \<open>char\<close> stands for one
  code unit. The handlers only ever ask of a code unit whether it is a decimal digit,
  whether it is white space, and whether it is one of a few ASCII punctuation marks.
\<close>

definition isDigit :: "char \<Rightarrow> bool" where
  "isDigit c = (48 \<le> (of_char c :: nat) \<and> (of_char c :: nat) \<le> 57)"

text \<open>\<^verbatim>\<open>s.replace(/\D/g, '')\<close>: every code unit that is not \<open>0\<close>..\<open>9\<close> is dropped.\<close>

definition stripNonDigits :: "string \<Rightarrow> string" where
  "stripNonDigits s = filter isDigit s"

text \<open>
  \<^verbatim>\<open>parseInt(cleaned[i])\<close> on a one-character string holding a decimal digit. It is
  applied to characters of a digit-only string at positions below its length only.
\<close>

definition parseIntDigit :: "char \<Rightarrow> nat" where
  "parseIntDigit c = (of_char c :: nat) - 48"

section \<open>Validator (submit.js)\<close>

text \<open>The \<^verbatim>\<open>for (let i = 0; i < 11; i++)\<close> loop of \<^verbatim>\<open>validateAadhar\<close>, with its accumulator.\<close>

function aadharLoop :: "string \<Rightarrow> nat \<Rightarrow> nat \<Rightarrow> nat" where
  "aadharLoop cleaned i sumv =
     (if i < 11 then
        (let digit = parseIntDigit (cleaned ! i) in
         if i mod 2 = 0 then aadharLoop cleaned (i + 1) (sumv + digit)
         else (let doubled = digit * 2 in
               aadharLoop cleaned (i + 1) (sumv + (if doubled > 9 then doubled - 9 else doubled))))
      else sumv)"
  by pat_completeness auto
termination
  by (relation "measure (\<lambda>(cleaned, i, sumv). 11 - i)") auto

declare aadharLoop.simps [simp del]

definition validateAadhar :: "string \<Rightarrow> bool" where
  "validateAadhar aadhar =
     (let cleaned = stripNonDigits aadhar in
      if length cleaned \<noteq> 12 then False
      else (let sumv = aadharLoop cleaned 0 0;
                checkDigit = (10 - (sumv mod 10)) mod 10
            in checkDigit = parseIntDigit (cleaned ! 11)))"

text \<open>
  The checksum as the specification words it: position \<open>i\<close> (counted from 0) of the
  first eleven digits contributes the digit itself when \<open>i\<close> is even, and the doubled
  digit, less 9 when the double exceeds 9, when \<open>i\<close> is odd.
\<close>

definition spec_weight :: "nat \<Rightarrow> nat \<Rightarrow> nat" where
  "spec_weight i d = (if even i then d else if 2 * d > 9 then 2 * d - 9 else 2 * d)"

definition spec_checksum :: "string \<Rightarrow> nat" where
  "spec_checksum ds = (\<Sum>i<11. spec_weight i (parseIntDigit (ds ! i)))"

section \<open>JavaScript numbers\<close>

text \<open>
  The numbers the query handler computes with come from \<^verbatim>\<open>parseInt\<close>, so they are
  integers, a negative zero, \<^verbatim>\<open>NaN\<close> or an infinity. Integer arithmetic is taken exact.
  The operations below are the ones \<^verbatim>\<open>paginateArray\<close> and its caller apply.
\<close>

datatype jsnum = Num int | NegZero | NaN | PosInf | NegInf

fun isZero :: "jsnum \<Rightarrow> bool" where
  "isZero (Num n) = (n = 0)"
| "isZero NegZero = True"
| "isZero _ = False"

fun isInf :: "jsnum \<Rightarrow> bool" where
  "isInf PosInf = True"
| "isInf NegInf = True"
| "isInf _ = False"

fun signBit :: "jsnum \<Rightarrow> bool" where
  "signBit (Num n) = (n < 0)"
| "signBit NegZero = True"
| "signBit NegInf = True"
| "signBit _ = False"

fun finiteValue :: "jsnum \<Rightarrow> int" where
  "finiteValue (Num n) = n"
| "finiteValue _ = 0"

text \<open>Unary minus, \<^verbatim>\<open>a + b\<close>, \<^verbatim>\<open>a - b\<close> and \<^verbatim>\<open>a * b\<close>.\<close>

fun jsNeg :: "jsnum \<Rightarrow> jsnum" where
  "jsNeg (Num n) = (if n = 0 then NegZero else Num (- n))"
| "jsNeg NegZero = Num 0"
| "jsNeg NaN = NaN"
| "jsNeg PosInf = NegInf"
| "jsNeg NegInf = PosInf"

fun jsAdd :: "jsnum \<Rightarrow> jsnum \<Rightarrow> jsnum" where
  "jsAdd NaN b = NaN"
| "jsAdd a NaN = NaN"
| "jsAdd PosInf NegInf = NaN"
| "jsAdd NegInf PosInf = NaN"
| "jsAdd PosInf b = PosInf"
| "jsAdd a PosInf = PosInf"
| "jsAdd NegInf b = NegInf"
| "jsAdd a NegInf = NegInf"
| "jsAdd NegZero NegZero = NegZero"
| "jsAdd NegZero (Num b) = Num b"
| "jsAdd (Num a) NegZero = Num a"
| "jsAdd (Num a) (Num b) = Num (a + b)"

definition jsSub :: "jsnum \<Rightarrow> jsnum \<Rightarrow> jsnum" where
  "jsSub a b = jsAdd a (jsNeg b)"

definition jsMul :: "jsnum \<Rightarrow> jsnum \<Rightarrow> jsnum" where
  "jsMul a b =
     (if a = NaN \<or> b = NaN then NaN
      else if (isInf a \<and> isZero b) \<or> (isZero a \<and> isInf b) then NaN
      else if isInf a \<or> isInf b then (if signBit a = signBit b then PosInf else NegInf)
      else (let v = finiteValue a * finiteValue b in
            if v = 0 then (if signBit a = signBit b then Num 0 else NegZero) else Num v))"

text \<open>\<^verbatim>\<open>a < b\<close>: false as soon as one side is \<^verbatim>\<open>NaN\<close>; the two zeros are equal.\<close>

fun jsLess :: "jsnum \<Rightarrow> jsnum \<Rightarrow> bool" where
  "jsLess NaN b = False"
| "jsLess a NaN = False"
| "jsLess a NegInf = False"
| "jsLess NegInf b = True"
| "jsLess PosInf b = False"
| "jsLess a PosInf = True"
| "jsLess a b = (finiteValue a < finiteValue b)"

text \<open>\<^verbatim>\<open>Math.min(a, b)\<close>: \<^verbatim>\<open>NaN\<close> if either is; of the two zeros the negative one.\<close>

definition mathMin :: "jsnum \<Rightarrow> jsnum \<Rightarrow> jsnum" where
  "mathMin a b =
     (if a = NaN \<or> b = NaN then NaN
      else if jsLess a b then a
      else if jsLess b a then b
      else if a = NegZero \<or> b = NegZero then NegZero
      else a)"

text \<open>
  \<^verbatim>\<open>Math.ceil(n / limit)\<close> for a length \<open>n\<close>. Division by a zero gives an infinity
  of the zero's sign, or \<^verbatim>\<open>NaN\<close> for \<open>0 / 0\<close>; a quotient in \<open>(-1, 0]\<close> rounds up
  to the negative zero.
\<close>

fun ceilQuotient :: "nat \<Rightarrow> jsnum \<Rightarrow> jsnum" where
  "ceilQuotient n NaN = NaN"
| "ceilQuotient n PosInf = Num 0"
| "ceilQuotient n NegInf = NegZero"
| "ceilQuotient n NegZero = (if n = 0 then NaN else NegInf)"
| "ceilQuotient n (Num l) =
     (if l = 0 then (if n = 0 then NaN else PosInf)
      else (let c = - ((- int n) div l) in
            if l < 0 \<and> c = 0 then NegZero else Num c))"

text \<open>
  \<^verbatim>\<open>array.slice(start, end)\<close>. An argument is first made an integer (\<^verbatim>\<open>NaN\<close> and
  the zeros become 0); a negative one counts from the end of the array; both are clamped
  to the array.
\<close>

fun relativeIndex :: "nat \<Rightarrow> jsnum \<Rightarrow> nat" where
  "relativeIndex len NaN = 0"
| "relativeIndex len NegZero = 0"
| "relativeIndex len NegInf = 0"
| "relativeIndex len PosInf = len"
| "relativeIndex len (Num n) = (if n < 0 then nat (max (int len + n) 0) else min (nat n) len)"

definition slice :: "'a list \<Rightarrow> jsnum \<Rightarrow> jsnum \<Rightarrow> 'a list" where
  "slice array start endIdx =
     (let k = relativeIndex (length array) start;
          final = relativeIndex (length array) endIdx
      in take (final - k) (drop k array))"

section \<open>Pagination (responses.js)\<close>

record pagination =
  pg_page :: jsnum
  pg_limit :: jsnum
  pg_totalItems :: nat
  pg_totalPages :: jsnum
  pg_hasNextPage :: bool
  pg_hasPrevPage :: bool

record 'a paginated =
  pd_items :: "'a list"
  pd_pagination :: pagination

definition paginateArray :: "'a list \<Rightarrow> jsnum \<Rightarrow> jsnum \<Rightarrow> 'a paginated" where
  "paginateArray array page limit =
     (let offset = jsMul (jsSub page (Num 1)) limit;
          paginatedItems = slice array offset (jsAdd offset limit);
          totalPages = ceilQuotient (length array) limit
      in \<lparr> pd_items = paginatedItems,
           pd_pagination = \<lparr> pg_page = page, pg_limit = limit,
             pg_totalItems = length array, pg_totalPages = totalPages,
             pg_hasNextPage = jsLess page totalPages,
             pg_hasPrevPage = jsLess (Num 1) page \<rparr> \<rparr>)"

section \<open>Exceptions\<close>

text \<open>
  What the code can throw: a \<^verbatim>\<open>TypeError\<close> (calling or reading through something
  that is not what the code takes it for), a \<^verbatim>\<open>ReferenceError\<close> (an undeclared name), a
  rejected KV call, and whatever a parameter of the model throws.
\<close>

datatype error = TypeError | ReferenceError | KVError | Thrown

section \<open>Rate limiters (submit.js, login.js)\<close>

text \<open>
  \<^verbatim>\<open>rateLimitStore\<close> and \<^verbatim>\<open>loginAttempts\<close> are plain objects (\<^verbatim>\<open>{}\<close>) used as
  dictionaries from the client address to the array of recorded times. Their own
  entries are the map \<open>attempts\<close>. Reading \<^verbatim>\<open>store[ip]\<close> also finds what the object
  inherits from \<^verbatim>\<open>Object.prototype\<close>: for a key that names one of its members and has
  no own entry, the read gives that member, a function (for \<^verbatim>\<open>__proto__\<close> the prototype
  object itself). It is truthy, so \<^verbatim>\<open>if (!store[ip])\<close> does not initialise the entry,
  and it has no \<^verbatim>\<open>filter\<close> method, so \<^verbatim>\<open>store[ip].filter(...)\<close> throws a
  \<^verbatim>\<open>TypeError\<close> before anything is stored; so an own entry under such a key never
  comes about. \<^verbatim>\<open>Date.now()\<close> is the argument \<open>now\<close>.
  Both functions return their answer, or the exception, together with the updated
  dictionary.
\<close>

type_synonym attempts = "string \<rightharpoonup> int list"

definition objectPrototypeMembers :: "string list" where
  "objectPrototypeMembers =
     [''constructor'', ''__defineGetter__'', ''__defineSetter__'', ''hasOwnProperty'',
      ''__lookupGetter__'', ''__lookupSetter__'', ''isPrototypeOf'', ''propertyIsEnumerable'',
      ''toString'', ''valueOf'', ''__proto__'', ''toLocaleString'']"

definition RATE_LIMIT_WINDOW_MS :: int where
  "RATE_LIMIT_WINDOW_MS = 15 * 60 * 1000"

definition RATE_LIMIT_MAX_REQUESTS :: nat where
  "RATE_LIMIT_MAX_REQUESTS = 10"

definition checkRateLimit :: "string \<Rightarrow> int \<Rightarrow> attempts \<Rightarrow> (error + bool) \<times> attempts" where
  "checkRateLimit ip now rateLimitStore =
     (let windowStart = now - RATE_LIMIT_WINDOW_MS in
      if rateLimitStore ip = None \<and> ip \<in> set objectPrototypeMembers
      then (Inl TypeError, rateLimitStore)
      else
        (let recorded = (case rateLimitStore ip of None \<Rightarrow> [] | Some ts \<Rightarrow> ts);
             kept = filter (\<lambda>time. time > windowStart) recorded
         in if length kept \<ge> RATE_LIMIT_MAX_REQUESTS then (Inr False, rateLimitStore(ip \<mapsto> kept))
            else (Inr True, rateLimitStore(ip \<mapsto> kept @ [now]))))"






section \<open>Values of a parsed JSON body\<close>

text \<open>
  A field of the parsed body can be any JSON value, or be absent. Scalars are modelled
  as they are; a number is carried as the string \<^verbatim>\<open>toString()\<close> gives for it (\<open>''0''\<close> for
  both zeros). Of an array or object the handler only asks for \<^verbatim>\<open>toString()\<close> and for
  the comparisons \<^verbatim>\<open>.length < 2\<close> and \<^verbatim>\<open>.length > 100\<close>; such a value is modelled by the
  answers to these. Each of them can throw a \<^verbatim>\<open>TypeError\<close> (an own property
  \<^verbatim>\<open>toString\<close> or \<^verbatim>\<open>valueOf\<close> that is not callable).
\<close>

datatype lengthClass = LengthThrows | LengthBelow2 | LengthNeither | LengthAbove100

record objectView =
  ov_toString :: "string option"
  ov_length :: lengthClass

datatype jsval =
    JUndefined
  | JNull
  | JBool bool
  | JNum string
  | JStr string
  | JObject objectView

fun truthy :: "jsval \<Rightarrow> bool" where
  "truthy JUndefined = False"
| "truthy JNull = False"
| "truthy (JBool b) = b"
| "truthy (JNum rendering) = (rendering \<noteq> ''0'')"
| "truthy (JStr s) = (s \<noteq> [])"
| "truthy (JObject v) = True"

text \<open>\<^verbatim>\<open>v.toString()\<close>.\<close>

fun toStringOf :: "jsval \<Rightarrow> error + string" where
  "toStringOf JUndefined = Inl TypeError"
| "toStringOf JNull = Inl TypeError"
| "toStringOf (JBool b) = Inr (if b then ''true'' else ''false'')"
| "toStringOf (JNum rendering) = Inr rendering"
| "toStringOf (JStr s) = Inr s"
| "toStringOf (JObject v) = (case ov_toString v of None \<Rightarrow> Inl TypeError | Some s \<Rightarrow> Inr s)"

text \<open>
  How \<^verbatim>\<open>v.length\<close> compares with 2 and with 100. A number or boolean has no
  \<^verbatim>\<open>length\<close>, and \<^verbatim>\<open>undefined\<close> is neither below 2 nor above 100.
\<close>

fun lengthClassOf :: "jsval \<Rightarrow> lengthClass" where
  "lengthClassOf JUndefined = LengthThrows"
| "lengthClassOf JNull = LengthThrows"
| "lengthClassOf (JBool b) = LengthNeither"
| "lengthClassOf (JNum rendering) = LengthNeither"
| "lengthClassOf (JStr s) =
     (if length s < 2 then LengthBelow2 else if length s > 100 then LengthAbove100 else LengthNeither)"
| "lengthClassOf (JObject v) = ov_length v"

definition thenE :: "error + 'a \<Rightarrow> ('a \<Rightarrow> error + 'b) \<Rightarrow> error + 'b" where
  "thenE m f = (case m of Inl e \<Rightarrow> Inl e | Inr x \<Rightarrow> f x)"

text \<open>\<^verbatim>\<open>a || b\<close> on header and query values: \<^verbatim>\<open>null\<close> and the empty string are falsy.\<close>

definition orElse :: "string option \<Rightarrow> string \<Rightarrow> string" where
  "orElse a b = (case a of None \<Rightarrow> b | Some s \<Rightarrow> if s = [] then b else s)"

definition orElseOpt :: "string option \<Rightarrow> string option \<Rightarrow> string option" where
  "orElseOpt a b = (case a of None \<Rightarrow> b | Some s \<Rightarrow> if s = [] then b else Some s)"

text \<open>\<^verbatim>\<open>xs.join(sep)\<close> on an array of strings.\<close>

fun joinWith :: "string \<Rightarrow> string list \<Rightarrow> string" where
  "joinWith sep [] = []"
| "joinWith sep [x] = x"
| "joinWith sep (x # y # ys) = x @ sep @ joinWith sep (y # ys)"

section \<open>Field validators and sanitizer (submit.js)\<close>

text \<open>\<^verbatim>\<open>/^[6-9]\d{9}$/.test(cleaned)\<close>.\<close>

definition matchesMobilePattern :: "string \<Rightarrow> bool" where
  "matchesMobilePattern cleaned =
     (case cleaned of
        [] \<Rightarrow> False
      | c # rest \<Rightarrow> 54 \<le> (of_char c :: nat) \<and> (of_char c :: nat) \<le> 57
                   \<and> length rest = 9 \<and> list_all isDigit rest)"

definition validateIndianMobile :: "string \<Rightarrow> bool" where
  "validateIndianMobile mobile = (let cleaned = stripNonDigits mobile in matchesMobilePattern cleaned)"

text \<open>
  \<^verbatim>\<open>validateDOB\<close>. \<^verbatim>\<open>new Date(dob).getTime()\<close> is the parameter \<open>newDate\<close>: it throws
  (an object that cannot be converted), or gives \<^verbatim>\<open>NaN\<close> (\<open>None\<close>) or a time value;
  \<open>today\<close> and \<open>hundredYearsAgo\<close> are the time values of the two dates the function
  makes from the clock.
\<close>

definition validateDOB ::
  "(jsval \<Rightarrow> error + int option) \<Rightarrow> int \<Rightarrow> int \<Rightarrow> jsval \<Rightarrow> error + bool" where
  "validateDOB newDate today hundredYearsAgo dob =
     thenE (newDate dob) (\<lambda>date.
       case date of
         None \<Rightarrow> Inr False
       | Some d \<Rightarrow>
           if d > today then Inr False
           else if d < hundredYearsAgo then Inr False
           else Inr True)"

definition isWhiteSpace :: "char \<Rightarrow> bool" where
  "isWhiteSpace c = ((of_char c :: nat) \<in> {9, 10, 11, 12, 13, 32, 160})"

definition trim :: "string \<Rightarrow> string" where
  "trim s = rev (dropWhile isWhiteSpace (rev (dropWhile isWhiteSpace s)))"

definition sanitizeInput :: "jsval \<Rightarrow> jsval" where
  "sanitizeInput input =
     (case input of
        JStr s \<Rightarrow>
          JStr (take 255
            (filter (\<lambda>c. c \<notin> {CHR ''&'', CHR ''<'', CHR ''>'', CHR 0x22, CHR 0x27, CHR 0x60,
                                CHR ''='', CHR ''/''})
              (filter (\<lambda>c. c \<notin> {CHR ''<'', CHR ''>''}) (trim s))))
      | other \<Rightarrow> other)"

section \<open>Record store\<close>

text \<open>
  The KV namespace, by the keys the handlers use: \<^verbatim>\<open>response:<id>\<close>,
  \<^verbatim>\<open>responses:list\<close>, \<^verbatim>\<open>responses:recent\<close>, \<^verbatim>\<open>stats\<close>, \<^verbatim>\<open>last_submission_date\<close>,
  \<^verbatim>\<open>session:<id>\<close> (with the \<^verbatim>\<open>expirationTtl\<close> of its last write) and
  \<^verbatim>\<open>cache:responses:<key>\<close>. Every value is what the handlers themselves write there.
\<close>

record responseData =
  r_id :: string
  r_name :: jsval
  r_dob :: jsval
  r_mobile :: string
  r_father :: jsval
  r_aadhar :: string
  r_timestamp :: string
  r_ip :: string
  r_userAgent :: string

record summary =
  sm_id :: string
  sm_name :: jsval
  sm_timestamp :: string
  sm_mobile :: string

record stats =
  st_total :: int
  st_today :: int
  st_lastUpdated :: "string option"

record session =
  ss_loggedIn :: bool
  ss_timestamp :: int
  ss_ip :: string
  ss_userAgent :: string
  ss_lastActivity :: "int option"

record filters =
  f_search :: "string option"
  f_startDate :: "string option"
  f_endDate :: "string option"
  f_mobile :: "string option"
  f_aadhar :: "string option"

record sortSpec =
  so_by :: string
  so_order :: string

text \<open>
  The body of a 200 answer of the query handler. The empty page has no \<^verbatim>\<open>filters\<close>
  and no \<^verbatim>\<open>sort\<close> member.
\<close>

record queryPayload =
  qp_data :: "responseData list"
  qp_pagination :: pagination
  qp_stats :: stats
  qp_filters :: "filters option"
  qp_sort :: "sortSpec option"

text \<open>
  The cache key is the \<^verbatim>\<open>JSON.stringify\<close> of page, limit, sort and filters;
  \<^verbatim>\<open>NaN\<close> and the infinities are written \<^verbatim>\<open>null\<close>, and the negative zero \<open>0\<close>.
\<close>

fun jsonNumber :: "jsnum \<Rightarrow> int option" where
  "jsonNumber (Num n) = Some n"
| "jsonNumber NegZero = Some 0"
| "jsonNumber _ = None"

record cacheKey =
  ck_page :: "int option"
  ck_limit :: "int option"
  ck_sortBy :: string
  ck_sortOrder :: string
  ck_filters :: filters

record cacheEntry =
  ce_data :: queryPayload
  ce_timestamp :: int

record kvStore =
  kv_responses :: "string \<rightharpoonup> responseData"
  kv_responsesList :: "string list option"
  kv_recent :: "summary list option"
  kv_stats :: "stats option"
  kv_lastSubmissionDate :: "string option"
  kv_sessions :: "string \<rightharpoonup> session \<times> nat"
  kv_cache :: "cacheKey \<rightharpoonup> cacheEntry"

text \<open>
  A KV call can fail. A handler numbers its calls in program order, and \<open>fails n\<close> says
  that call \<open>n\<close> of this request rejects. An action returns its result, or the error,
  together with the store as it is then.
\<close>

type_synonym 'a kvAction = "kvStore \<Rightarrow> (error + 'a) \<times> kvStore"

definition kvReturn :: "'a \<Rightarrow> 'a kvAction" where
  "kvReturn x = (\<lambda>kv. (Inr x, kv))"

definition kvThrow :: "error \<Rightarrow> 'a kvAction" where
  "kvThrow e = (\<lambda>kv. (Inl e, kv))"

definition kvThen :: "'a kvAction \<Rightarrow> ('a \<Rightarrow> 'b kvAction) \<Rightarrow> 'b kvAction" where
  "kvThen m f = (\<lambda>kv. case m kv of (Inl e, kv') \<Rightarrow> (Inl e, kv') | (Inr x, kv') \<Rightarrow> f x kv')"

definition kvGet :: "(nat \<Rightarrow> bool) \<Rightarrow> nat \<Rightarrow> (kvStore \<Rightarrow> 'a) \<Rightarrow> 'a kvAction" where
  "kvGet fails n read = (\<lambda>kv. if fails n then (Inl KVError, kv) else (Inr (read kv), kv))"

text \<open>The per-record reads of the batched fetch catch their own failures.\<close>

definition kvRead :: "(kvStore \<Rightarrow> 'a) \<Rightarrow> 'a kvAction" where
  "kvRead read = (\<lambda>kv. (Inr (read kv), kv))"

definition kvPut :: "(nat \<Rightarrow> bool) \<Rightarrow> nat \<Rightarrow> (kvStore \<Rightarrow> kvStore) \<Rightarrow> unit kvAction" where
  "kvPut fails n write = (\<lambda>kv. if fails n then (Inl KVError, kv) else (Inr (), write kv))"

text \<open>What a handler hands back: a response, or an exception nobody caught.\<close>

record 'p httpResponse =
  rs_status :: nat
  rs_body :: 'p
  rs_headers :: "(string \<times> string) list"

datatype 'p outcome = Returned "'p httpResponse" | Uncaught error

section \<open>Submission handler (submit.js)\<close>

text \<open>
  The parsed body. \<^verbatim>\<open>request.json()\<close> rejects (\<open>Malformed\<close>), or gives \<^verbatim>\<open>null\<close>, or
  gives a value whose five fields are read with \<^verbatim>\<open>formData[field]\<close>; a body that is a
  number, string, boolean or array has all five \<^verbatim>\<open>undefined\<close>.
\<close>

record formData =
  fd_name :: jsval
  fd_dob :: jsval
  fd_mobile :: jsval
  fd_father :: jsval
  fd_aadhar :: jsval

datatype body = Malformed | ParsedNull | Parsed formData

record submitRequest =
  rq_cfConnectingIp :: "string option"
  rq_xForwardedFor :: "string option"
  rq_userAgent :: "string option"
  rq_body :: body

text \<open>
  What the request reads from the clock, the random generator and the platform:
  \<^verbatim>\<open>Date.now()\<close> in the rate limiter, the dates of \<^verbatim>\<open>validateDOB\<close>, the generated
  identifier, the ISO timestamp, the ISO date of the statistics update, and which KV
  calls fail.
\<close>

record submitEnv =
  se_now :: int
  se_newDate :: "jsval \<Rightarrow> error + int option"
  se_today :: int
  se_hundredYearsAgo :: int
  se_responseId :: string
  se_timestamp :: string
  se_todayDate :: string
  se_kvFails :: "nat \<Rightarrow> bool"

record sanitizedData =
  sd_name :: jsval
  sd_dob :: jsval
  sd_mobile :: string
  sd_father :: jsval
  sd_aadhar :: string

datatype submitPayload =
    ErrorBody string
  | ErrorsBody "string list"
  | SuccessBody string string jsval

definition clientIPOf :: "submitRequest \<Rightarrow> string" where
  "clientIPOf request = orElse (orElseOpt (rq_cfConnectingIp request) (rq_xForwardedFor request)) ''unknown''"

definition requiredFields :: "string list" where
  "requiredFields = [''name'', ''dob'', ''mobile'', ''father'', ''aadhar'']"

definition fieldOf :: "formData \<Rightarrow> string \<Rightarrow> jsval" where
  "fieldOf formData field =
     (if field = ''name'' then fd_name formData
      else if field = ''dob'' then fd_dob formData
      else if field = ''mobile'' then fd_mobile formData
      else if field = ''father'' then fd_father formData
      else if field = ''aadhar'' then fd_aadhar formData
      else JUndefined)"

definition missingFieldsOf :: "formData \<Rightarrow> string list" where
  "missingFieldsOf formData = filter (\<lambda>field. \<not> truthy (fieldOf formData field)) requiredFields"

definition sanitizeForm :: "formData \<Rightarrow> error + sanitizedData" where
  "sanitizeForm formData =
     thenE (toStringOf (fd_mobile formData)) (\<lambda>mobileText.
     thenE (toStringOf (fd_aadhar formData)) (\<lambda>aadharText.
       Inr \<lparr> sd_name = sanitizeInput (fd_name formData),
             sd_dob = fd_dob formData,
             sd_mobile = stripNonDigits mobileText,
             sd_father = sanitizeInput (fd_father formData),
             sd_aadhar = stripNonDigits aadharText \<rparr>))"

definition pushIf :: "bool \<Rightarrow> string \<Rightarrow> string list \<Rightarrow> string list" where
  "pushIf violated message errors = (if violated then errors @ [message] else errors)"

definition collectValidationErrors :: "submitEnv \<Rightarrow> sanitizedData \<Rightarrow> error + string list" where
  "collectValidationErrors env sanitized =
     (if lengthClassOf (sd_name sanitized) = LengthThrows then Inl TypeError
      else
        let e1 = pushIf (lengthClassOf (sd_name sanitized) = LengthBelow2)
                   ''Name must be at least 2 characters long'' [];
            e2 = pushIf (lengthClassOf (sd_name sanitized) = LengthAbove100)
                   ''Name is too long'' e1
        in thenE (validateDOB (se_newDate env) (se_today env) (se_hundredYearsAgo env)
                    (sd_dob sanitized)) (\<lambda>dobValid.
             let e3 = pushIf (\<not> dobValid) ''Invalid date of birth'' e2;
                 e4 = pushIf (\<not> validateIndianMobile (sd_mobile sanitized))
                        ''Invalid Indian mobile number'' e3
             in if lengthClassOf (sd_father sanitized) = LengthThrows then Inl TypeError
                else
                  let e5 = pushIf (lengthClassOf (sd_father sanitized) = LengthBelow2)
                             (''Father'' @ [CHR 0x27] @ ''s name must be at least 2 characters long'') e4;
                      e6 = pushIf (lengthClassOf (sd_father sanitized) = LengthAbove100)
                             (''Father'' @ [CHR 0x27] @ ''s name is too long'') e5;
                      e7 = pushIf (\<not> validateAadhar (sd_aadhar sanitized))
                             ''Invalid Aadhar number'' e6
                  in Inr e7))"

text \<open>
  The writes of an accepted submission, in program order. KV calls 0 to 8: put the
  record, get and put the list, get and put the recent list, get the statistics, get
  the last submission date, put that date (only when it differs), put the statistics.
\<close>

definition storeSubmission :: "submitEnv \<Rightarrow> responseData \<Rightarrow> unit kvAction" where
  "storeSubmission env responseData =
     (let fails = se_kvFails env; responseId = r_id responseData; timestamp = r_timestamp responseData in
      kvThen (kvPut fails 0 (\<lambda>kv. kv\<lparr> kv_responses := (kv_responses kv)(responseId \<mapsto> responseData) \<rparr>)) (\<lambda>_.
      kvThen (kvGet fails 1 kv_responsesList) (\<lambda>storedList.
        let responsesList = (case storedList of None \<Rightarrow> [] | Some ids \<Rightarrow> ids) @ [responseId] in
      kvThen (kvPut fails 2 (\<lambda>kv. kv\<lparr> kv_responsesList := Some responsesList \<rparr>)) (\<lambda>_.
      kvThen (kvGet fails 3 kv_recent) (\<lambda>storedRecent.
        let unshifted = \<lparr> sm_id = responseId, sm_name = r_name responseData,
                           sm_timestamp = timestamp, sm_mobile = r_mobile responseData \<rparr>
                         # (case storedRecent of None \<Rightarrow> [] | Some rs \<Rightarrow> rs);
            recentResponses = (if length unshifted > 50 then take 50 unshifted else unshifted) in
      kvThen (kvPut fails 4 (\<lambda>kv. kv\<lparr> kv_recent := Some recentResponses \<rparr>)) (\<lambda>_.
      kvThen (kvGet fails 5 kv_stats) (\<lambda>storedStats.
        let stats0 = (case storedStats of
                        None \<Rightarrow> \<lparr> st_total = 0, st_today = 0, st_lastUpdated = Some timestamp \<rparr>
                      | Some st \<Rightarrow> st);
            stats1 = stats0\<lparr> st_total := st_total stats0 + 1 \<rparr>;
            today = se_todayDate env in
      kvThen (kvGet fails 6 kv_lastSubmissionDate) (\<lambda>lastSubmission.
      kvThen (if lastSubmission \<noteq> Some today
              then kvThen (kvPut fails 7 (\<lambda>kv. kv\<lparr> kv_lastSubmissionDate := Some today \<rparr>))
                     (\<lambda>_. kvReturn (stats1\<lparr> st_today := 1 \<rparr>))
              else kvReturn (stats1\<lparr> st_today := st_today stats1 + 1 \<rparr>)) (\<lambda>stats2.
      kvPut fails 8 (\<lambda>kv. kv\<lparr> kv_stats := Some (stats2\<lparr> st_lastUpdated := Some timestamp \<rparr>) \<rparr>))))))))))"

definition rateLimitedResponse :: "submitPayload httpResponse" where
  "rateLimitedResponse =
     \<lparr> rs_status = 429, rs_body = ErrorBody ''Rate limit exceeded. Please try again later.'',
       rs_headers = [(''Content-Type'', ''application/json''), (''Retry-After'', ''900'')] \<rparr>"

definition badRequest :: "submitPayload \<Rightarrow> submitPayload httpResponse" where
  "badRequest payload =
     \<lparr> rs_status = 400, rs_body = payload, rs_headers = [(''Content-Type'', ''application/json'')] \<rparr>"

definition createdResponse :: "string \<Rightarrow> string \<Rightarrow> jsval \<Rightarrow> submitPayload httpResponse" where
  "createdResponse responseId timestamp name =
     \<lparr> rs_status = 201, rs_body = SuccessBody responseId timestamp name,
       rs_headers = [(''Content-Type'', ''application/json''),
                     (''Cache-Control'', ''no-store, no-cache, must-revalidate''),
                     (''Access-Control-Allow-Origin'', ''*''),
                     (''Access-Control-Allow-Methods'', ''POST, OPTIONS''),
                     (''Access-Control-Allow-Headers'', ''Content-Type'')] \<rparr>"

text \<open>The \<^verbatim>\<open>try\<close> block of \<^verbatim>\<open>onRequestPost\<close>: a response, or the exception thrown in it.\<close>

definition submitTry ::
  "submitEnv \<Rightarrow> submitRequest \<Rightarrow> attempts \<Rightarrow> kvStore
     \<Rightarrow> (error + submitPayload httpResponse) \<times> attempts \<times> kvStore" where
  "submitTry env request rateLimitStore kv =
     (let clientIP = clientIPOf request;
          (checked, rateLimitStore') = checkRateLimit clientIP (se_now env) rateLimitStore
      in case checked of
           Inl e \<Rightarrow> (Inl e, rateLimitStore', kv)
         | Inr allowed \<Rightarrow>
         if \<not> allowed then (Inr rateLimitedResponse, rateLimitStore', kv)
         else
          (case rq_body request of
             Malformed \<Rightarrow> (Inr (badRequest (ErrorBody ''Invalid JSON data'')), rateLimitStore', kv)
           | ParsedNull \<Rightarrow> (Inl TypeError, rateLimitStore', kv)
           | Parsed formData \<Rightarrow>
              (let missingFields = missingFieldsOf formData in
               if length missingFields > 0
               then (Inr (badRequest (ErrorBody
                       (''Missing required fields: '' @ joinWith '', '' missingFields))),
                     rateLimitStore', kv)
               else
                (case sanitizeForm formData of
                   Inl e \<Rightarrow> (Inl e, rateLimitStore', kv)
                 | Inr sanitizedData \<Rightarrow>
                    (case collectValidationErrors env sanitizedData of
                       Inl e \<Rightarrow> (Inl e, rateLimitStore', kv)
                     | Inr validationErrors \<Rightarrow>
                         if length validationErrors > 0
                         then (Inr (badRequest (ErrorsBody validationErrors)), rateLimitStore', kv)
                         else
                          (let responseId = se_responseId env;
                               timestamp = se_timestamp env;
                               responseData =
                                 \<lparr> r_id = responseId,
                                   r_name = sd_name sanitizedData,
                                   r_dob = sd_dob sanitizedData,
                                   r_mobile = sd_mobile sanitizedData,
                                   r_father = sd_father sanitizedData,
                                   r_aadhar = sd_aadhar sanitizedData,
                                   r_timestamp = timestamp,
                                   r_ip = clientIP,
                                   r_userAgent = orElse (rq_userAgent request) ''unknown'' \<rparr>
                           in (case storeSubmission env responseData kv of
                                 (Inl e, kv') \<Rightarrow> (Inl e, rateLimitStore', kv')
                               | (Inr u, kv') \<Rightarrow>
                                   (Inr (createdResponse responseId timestamp (sd_name sanitizedData)),
                                    rateLimitStore', kv'))))))))"

text \<open>
  \<^verbatim>\<open>onRequestPost\<close>. Its \<^verbatim>\<open>catch\<close> block builds the 500 answer from
  \<^verbatim>\<open>CONFIG.DEBUG_MODE\<close>, and submit.js declares no \<^verbatim>\<open>CONFIG\<close>: reading it throws a
  \<^verbatim>\<open>ReferenceError\<close>, which leaves the handler uncaught.
\<close>

definition onRequestPost ::
  "submitEnv \<Rightarrow> submitRequest \<Rightarrow> attempts \<Rightarrow> kvStore
     \<Rightarrow> submitPayload outcome \<times> attempts \<times> kvStore" where
  "onRequestPost env request rateLimitStore kv =
     (case submitTry env request rateLimitStore kv of
        (Inr response, rateLimitStore', kv') \<Rightarrow> (Returned response, rateLimitStore', kv')
      | (Inl e, rateLimitStore', kv') \<Rightarrow> (Uncaught ReferenceError, rateLimitStore', kv'))"

section \<open>Session cookie\<close>

text \<open>
  \<^verbatim>\<open>s.split(sep)\<close> for a non-empty separator: the pieces between the occurrences of
  \<open>sep\<close>, found from left to right without overlap. \<open>skip\<close> counts the characters of
  a separator just found that are still to be passed over.
\<close>

fun splitAcc :: "string \<Rightarrow> nat \<Rightarrow> string \<Rightarrow> string \<Rightarrow> string list" where
  "splitAcc sep skip acc [] = [rev acc]"
| "splitAcc sep (Suc n) acc (c # cs) = splitAcc sep n acc cs"
| "splitAcc sep 0 acc (c # cs) =
     (if sep \<noteq> [] \<and> take (length sep) (c # cs) = sep
      then rev acc # splitAcc sep (length sep - 1) [] cs
      else splitAcc sep 0 (c # acc) cs)"

definition split :: "string \<Rightarrow> string \<Rightarrow> string list" where
  "split s sep = splitAcc sep 0 [] s"

text \<open>
  \<^verbatim>\<open>Object.fromEntries(entries)\<close> on arrays of strings: the first element is the key,
  the second the value (\<^verbatim>\<open>undefined\<close>, here \<open>None\<close>, when there is none); a later entry
  replaces an earlier one with the same key.
\<close>

definition fromEntries :: "string list list \<Rightarrow> (string \<rightharpoonup> string option)" where
  "fromEntries entries =
     foldl (\<lambda>obj entry.
              case entry of
                [] \<Rightarrow> obj
              | key # rest \<Rightarrow> obj(key \<mapsto> (case rest of [] \<Rightarrow> None | v # _ \<Rightarrow> Some v)))
           Map.empty entries"

text \<open>\<^verbatim>\<open>cookies.admin_session\<close>: \<^verbatim>\<open>undefined\<close> when no entry has that key.\<close>

definition adminSessionOf :: "string \<Rightarrow> string option" where
  "adminSessionOf cookieHeader =
     (let cookies = fromEntries (map (\<lambda>c. split c ''='') (split cookieHeader ''; ''))
      in case cookies ''admin_session'' of None \<Rightarrow> None | Some v \<Rightarrow> v)"

section \<open>Query handler (responses.js)\<close>

record getRequest =
  gr_cookie :: "string option"
  gr_params :: "string \<Rightarrow> string option"

text \<open>
  What a query reads from outside: the clock (in the session check, in the cache check
  and when a cache entry is written), \<^verbatim>\<open>parseInt\<close>, which KV calls fail, and for which
  record identifiers the batched \<^verbatim>\<open>kv.get\<close> rejects. \<^verbatim>\<open>filterResponses\<close> and
  \<^verbatim>\<open>sortResponses\<close> are parameters as well: they rest on \<^verbatim>\<open>Date\<close>, on
  \<^verbatim>\<open>toLowerCase\<close> and on the engine's \<^verbatim>\<open>sort\<close>, they can throw, and nothing below
  depends on what they compute.
\<close>

record queryEnv =
  qe_nowSession :: int
  qe_nowCacheCheck :: int
  qe_nowCachePut :: int
  qe_parseInt :: "string \<Rightarrow> jsnum"
  qe_filterResponses :: "filters \<Rightarrow> responseData list \<Rightarrow> error + responseData list"
  qe_sortResponses :: "string \<Rightarrow> string \<Rightarrow> responseData list \<Rightarrow> error + responseData list"
  qe_kvFails :: "nat \<Rightarrow> bool"
  qe_fetchFails :: "string \<Rightarrow> bool"

datatype queryBody = PageBody queryPayload | FailureBody string

definition CACHE_TTL :: int where
  "CACHE_TTL = 5"

text \<open>
  The \<^verbatim>\<open>try\<close> block of \<^verbatim>\<open>validateAdminSession\<close>. KV call 0 reads the session, call 1
  deletes an expired one.
\<close>

definition sessionCheck :: "queryEnv \<Rightarrow> getRequest \<Rightarrow> bool kvAction" where
  "sessionCheck env request =
     (case gr_cookie request of
        None \<Rightarrow> kvReturn False
      | Some cookieHeader \<Rightarrow>
          if cookieHeader = [] then kvReturn False
          else
           (case adminSessionOf cookieHeader of
              None \<Rightarrow> kvReturn False
            | Some sessionId \<Rightarrow>
                if sessionId = [] then kvReturn False
                else
                  kvThen (kvGet (qe_kvFails env) 0 (\<lambda>kv. kv_sessions kv sessionId)) (\<lambda>stored.
                    case stored of
                      None \<Rightarrow> kvReturn False
                    | Some (sessionData, ttl) \<Rightarrow>
                        if \<not> ss_loggedIn sessionData then kvReturn False
                        else if qe_nowSession env - ss_timestamp sessionData > 24 * 60 * 60 * 1000
                        then kvThen (kvPut (qe_kvFails env) 1
                                       (\<lambda>kv. kv\<lparr> kv_sessions := (kv_sessions kv)(sessionId := None) \<rparr>))
                               (\<lambda>u. kvReturn False)
                        else kvReturn True)))"

text \<open>\<^verbatim>\<open>validateAdminSession\<close>: its \<^verbatim>\<open>catch\<close> turns every exception into \<^verbatim>\<open>false\<close>.\<close>

definition validateAdminSession :: "queryEnv \<Rightarrow> getRequest \<Rightarrow> kvStore \<Rightarrow> bool \<times> kvStore" where
  "validateAdminSession env request kv =
     (case sessionCheck env request kv of
        (Inl e, kv') \<Rightarrow> (False, kv')
      | (Inr valid, kv') \<Rightarrow> (valid, kv'))"

text \<open>The normalised query parameters, and the cache key made from them.\<close>

record query =
  q_page :: jsnum
  q_limit :: jsnum
  q_sortBy :: string
  q_sortOrder :: string
  q_filters :: filters

definition queryOf :: "queryEnv \<Rightarrow> getRequest \<Rightarrow> query" where
  "queryOf env request =
     (let searchParams = gr_params request in
      \<lparr> q_page = qe_parseInt env (orElse (searchParams ''page'') ''1''),
        q_limit = mathMin (qe_parseInt env (orElse (searchParams ''limit'') ''50'')) (Num 100),
        q_sortBy = orElse (searchParams ''sortBy'') ''timestamp'',
        q_sortOrder = orElse (searchParams ''sortOrder'') ''desc'',
        q_filters = \<lparr> f_search = searchParams ''search'',
                      f_startDate = searchParams ''startDate'',
                      f_endDate = searchParams ''endDate'',
                      f_mobile = searchParams ''mobile'',
                      f_aadhar = searchParams ''aadhar'' \<rparr> \<rparr>)"

definition cacheKeyOf :: "query \<Rightarrow> cacheKey" where
  "cacheKeyOf q =
     \<lparr> ck_page = jsonNumber (q_page q), ck_limit = jsonNumber (q_limit q),
       ck_sortBy = q_sortBy q, ck_sortOrder = q_sortOrder q, ck_filters = q_filters q \<rparr>"

text \<open>
  The batched fetch: \<^verbatim>\<open>for (let i = 0; i < responsesList.length; i += batchSize)\<close>.
  \<open>get\<close> is \<^verbatim>\<open>kv.get(...).catch(() => null)\<close> for one identifier.
\<close>

function fetchBatches ::
  "(string \<Rightarrow> responseData option) \<Rightarrow> string list \<Rightarrow> nat \<Rightarrow> responseData list
     \<Rightarrow> responseData list" where
  "fetchBatches get responsesList i responses =
     (if i < length responsesList then
        (let batchIds = take 20 (drop i responsesList);
             batchResults = map get batchIds;
             validResponses = map the (filter (\<lambda>r. r \<noteq> None) batchResults)
         in fetchBatches get responsesList (i + 20) (responses @ validResponses))
      else responses)"
  by pat_completeness auto
termination
  by (relation "measure (\<lambda>(get, responsesList, i, responses). length responsesList - i)") auto

declare fetchBatches.simps [simp del]

definition fetchAll :: "queryEnv \<Rightarrow> string list \<Rightarrow> kvStore \<Rightarrow> responseData list" where
  "fetchAll env responsesList kv =
     fetchBatches (\<lambda>id. if qe_fetchFails env id then None else kv_responses kv id)
       responsesList 0 []"

definition okResponse :: "string \<Rightarrow> queryPayload \<Rightarrow> queryBody httpResponse" where
  "okResponse xCache payload =
     \<lparr> rs_status = 200, rs_body = PageBody payload,
       rs_headers = [(''Content-Type'', ''application/json''), (''X-Cache'', xCache),
                     (''Cache-Control'', ''public, max-age=5''),
                     (''Access-Control-Allow-Origin'', ''*'')] \<rparr>"

definition unauthorizedResponse :: "queryBody httpResponse" where
  "unauthorizedResponse =
     \<lparr> rs_status = 401, rs_body = FailureBody ''Unauthorized access'',
       rs_headers = [(''Content-Type'', ''application/json'')] \<rparr>"

definition fetchFailedResponse :: "queryBody httpResponse" where
  "fetchFailedResponse =
     \<lparr> rs_status = 500, rs_body = FailureBody ''Failed to fetch responses'',
       rs_headers = [(''Content-Type'', ''application/json''), (''Cache-Control'', ''no-store'')] \<rparr>"

definition emptyResponse :: "jsnum \<Rightarrow> queryPayload" where
  "emptyResponse limit =
     \<lparr> qp_data = [],
       qp_pagination = \<lparr> pg_page = Num 1, pg_limit = limit, pg_totalItems = 0,
                          pg_totalPages = Num 0, pg_hasNextPage = False, pg_hasPrevPage = False \<rparr>,
       qp_stats = \<lparr> st_total = 0, st_today = 0, st_lastUpdated = None \<rparr>,
       qp_filters = None,
       qp_sort = None \<rparr>"

text \<open>
  The handler from the line \<^verbatim>\<open>// Get all response IDs\<close> on, run when the cache has no
  fresh entry. KV calls: 3 reads the list, 4 caches the empty page, 5 reads the
  statistics, 6 caches the page.
\<close>

definition queryMiss :: "queryEnv \<Rightarrow> query \<Rightarrow> (queryBody httpResponse) kvAction" where
  "queryMiss env q =
     (let fails = qe_kvFails env; cacheKey = cacheKeyOf q in
      kvThen (kvGet fails 3 kv_responsesList) (\<lambda>storedList.
        let responsesList = (case storedList of None \<Rightarrow> [] | Some ids \<Rightarrow> ids) in
        if length responsesList = 0
        then
          kvThen (kvPut fails 4 (\<lambda>kv. kv\<lparr> kv_cache := (kv_cache kv)(cacheKey \<mapsto>
                     \<lparr> ce_data = emptyResponse (q_limit q), ce_timestamp = qe_nowCachePut env \<rparr>) \<rparr>))
            (\<lambda>u. kvReturn (okResponse ''MISS'' (emptyResponse (q_limit q))))
        else
          kvThen (kvRead (fetchAll env responsesList)) (\<lambda>responses.
            case qe_filterResponses env (q_filters q) responses of
              Inl e \<Rightarrow> kvThrow e
            | Inr filteredResponses \<Rightarrow>
               (case qe_sortResponses env (q_sortBy q) (q_sortOrder q) filteredResponses of
                  Inl e \<Rightarrow> kvThrow e
                | Inr sortedResponses \<Rightarrow>
                    let paginated = paginateArray sortedResponses (q_page q) (q_limit q) in
                    kvThen (kvGet fails 5 kv_stats) (\<lambda>storedStats.
                      let stats = (case storedStats of
                                     None \<Rightarrow> \<lparr> st_total = 0, st_today = 0, st_lastUpdated = None \<rparr>
                                   | Some st \<Rightarrow> st);
                          responseData =
                            \<lparr> qp_data = pd_items paginated,
                              qp_pagination = pd_pagination paginated,
                              qp_stats = stats,
                              qp_filters = Some (q_filters q),
                              qp_sort = Some \<lparr> so_by = q_sortBy q, so_order = q_sortOrder q \<rparr> \<rparr>
                      in kvThen (kvPut fails 6 (\<lambda>kv. kv\<lparr> kv_cache := (kv_cache kv)(cacheKey \<mapsto>
                                   \<lparr> ce_data = responseData, ce_timestamp = qe_nowCachePut env \<rparr>) \<rparr>))
                           (\<lambda>u. kvReturn (okResponse ''MISS'' responseData)))))))"

text \<open>The \<^verbatim>\<open>try\<close> block of \<^verbatim>\<open>onRequestGet\<close>. KV call 2 reads the cache.\<close>

definition queryTry :: "queryEnv \<Rightarrow> getRequest \<Rightarrow> (queryBody httpResponse) kvAction" where
  "queryTry env request =
     (let requiresAuth = (gr_params request ''public'' = None) in
      kvThen (if requiresAuth
              then (\<lambda>kv. case validateAdminSession env request kv of (valid, kv') \<Rightarrow> (Inr valid, kv'))
              else kvReturn True) (\<lambda>sessionValid.
        if requiresAuth \<and> \<not> sessionValid then kvReturn unauthorizedResponse
        else
          let q = queryOf env request in
          kvThen (kvGet (qe_kvFails env) 2 (\<lambda>kv. kv_cache kv (cacheKeyOf q))) (\<lambda>cached.
            case cached of
              None \<Rightarrow> queryMiss env q
            | Some entry \<Rightarrow>
                if qe_nowCacheCheck env - ce_timestamp entry < CACHE_TTL * 1000
                then kvReturn (okResponse ''HIT'' (ce_data entry))
                else queryMiss env q)))"

definition onRequestGet :: "queryEnv \<Rightarrow> getRequest \<Rightarrow> kvStore \<Rightarrow> queryBody httpResponse \<times> kvStore" where
  "onRequestGet env request kv =
     (case queryTry env request kv of
        (Inr response, kv') \<Rightarrow> (response, kv')
      | (Inl e, kv') \<Rightarrow> (fetchFailedResponse, kv'))"

section \<open>Session check (login.js)\<close>

definition SESSION_DURATION :: nat where
  "SESSION_DURATION = 24 * 60 * 60"

record loginEnv =
  le_nowCheck :: int
  le_nowActivity :: int
  le_kvFails :: "nat \<Rightarrow> bool"

text \<open>
  The body of the session answer: \<^verbatim>\<open>loggedIn\<close> with the \<^verbatim>\<open>session\<close> member
  (timestamp and ip, or \<^verbatim>\<open>null\<close>), or the answer of the \<^verbatim>\<open>catch\<close> block.
\<close>

datatype loginBody = SessionInfo bool "(int \<times> string) option" | SessionCheckFailed

definition sessionInfoResponse :: "bool \<Rightarrow> (int \<times> string) option \<Rightarrow> loginBody httpResponse" where
  "sessionInfoResponse isLoggedIn info =
     \<lparr> rs_status = 200, rs_body = SessionInfo isLoggedIn info,
       rs_headers = [(''Content-Type'', ''application/json''), (''Cache-Control'', ''no-store'')] \<rparr>"

text \<open>
  The \<^verbatim>\<open>try\<close> block of the session endpoint. KV call 0 reads the session; call 1
  writes it back with \<^verbatim>\<open>lastActivity\<close> set, or deletes it when it has expired.
\<close>

definition loginGetTry :: "loginEnv \<Rightarrow> string option \<Rightarrow> (loginBody httpResponse) kvAction" where
  "loginGetTry env cookie =
     (case cookie of
        None \<Rightarrow> kvReturn (sessionInfoResponse False None)
      | Some cookieHeader \<Rightarrow>
          if cookieHeader = [] then kvReturn (sessionInfoResponse False None)
          else
           (case adminSessionOf cookieHeader of
              None \<Rightarrow> kvReturn (sessionInfoResponse False None)
            | Some sessionId \<Rightarrow>
                if sessionId = [] then kvReturn (sessionInfoResponse False None)
                else
                  kvThen (kvGet (le_kvFails env) 0 (\<lambda>kv. kv_sessions kv sessionId)) (\<lambda>stored.
                    case stored of
                      None \<Rightarrow> kvReturn (sessionInfoResponse False None)
                    | Some (sessionData, ttl) \<Rightarrow>
                        if ss_loggedIn sessionData
                        then
                          if le_nowCheck env - ss_timestamp sessionData < 24 * 60 * 60 * 1000
                          then
                            (let sessionData' = sessionData\<lparr> ss_lastActivity := Some (le_nowActivity env) \<rparr> in
                             kvThen (kvPut (le_kvFails env) 1
                                       (\<lambda>kv. kv\<lparr> kv_sessions := (kv_sessions kv)(sessionId \<mapsto>
                                                  (sessionData', SESSION_DURATION)) \<rparr>))
                               (\<lambda>u. kvReturn (sessionInfoResponse True
                                       (Some (ss_timestamp sessionData', ss_ip sessionData')))))
                          else
                            kvThen (kvPut (le_kvFails env) 1
                                      (\<lambda>kv. kv\<lparr> kv_sessions := (kv_sessions kv)(sessionId := None) \<rparr>))
                              (\<lambda>u. kvReturn (sessionInfoResponse False None))
                        else kvReturn (sessionInfoResponse False None))))"

definition loginOnRequestGet ::
  "loginEnv \<Rightarrow> string option \<Rightarrow> kvStore \<Rightarrow> loginBody httpResponse \<times> kvStore" where
  "loginOnRequestGet env cookie kv =
     (case loginGetTry env cookie kv of
        (Inr response, kv') \<Rightarrow> (response, kv')
      | (Inl e, kv') \<Rightarrow>
          (\<lparr> rs_status = 200, rs_body = SessionCheckFailed,
             rs_headers = [(''Content-Type'', ''application/json'')] \<rparr>, kv'))"

section \<open>Sample inputs\<close>

definition sampleEnv :: submitEnv where
  "sampleEnv =
     \<lparr> se_now = 1700000000000,
       se_newDate = (\<lambda>v. if v = JStr ''2001-05-17'' then Inr (Some 990057600000) else Inr None),
       se_today = 1700000000000,
       se_hundredYearsAgo = - 1455760000000,
       se_responseId = ''resp_lp3x9k2a_4f7h2k9qz'',
       se_timestamp = ''2023-11-14T22:13:20.000Z'',
       se_todayDate = ''2023-11-14'',
       se_kvFails = (\<lambda>n. False) \<rparr>"

definition sampleForm :: formData where
  "sampleForm =
     \<lparr> fd_name = JStr '' Asha Rao '',
       fd_dob = JStr ''2001-05-17'',
       fd_mobile = JStr ''91234 56789'',
       fd_father = JStr ''Ravi Rao'',
       fd_aadhar = JStr ''2341 2341 2340'' \<rparr>"

definition sampleRequest :: "formData \<Rightarrow> submitRequest" where
  "sampleRequest form =
     \<lparr> rq_cfConnectingIp = Some ''203.0.113.7'',
       rq_xForwardedFor = None,
       rq_userAgent = Some ''Mozilla/5.0'',
       rq_body = Parsed form \<rparr>"

definition emptyStore :: kvStore where
  "emptyStore =
     \<lparr> kv_responses = Map.empty, kv_responsesList = None, kv_recent = None, kv_stats = None,
       kv_lastSubmissionDate = None, kv_sessions = Map.empty, kv_cache = Map.empty \<rparr>"

definition olderSummary :: summary where
  "olderSummary =
     \<lparr> sm_id = ''resp_lp3x0000_aaaaaaaaa'', sm_name = JStr ''Older'',
       sm_timestamp = ''2023-11-13T08:00:00.000Z'', sm_mobile = ''9000000001'' \<rparr>"

definition oldestSummary :: summary where
  "oldestSummary =
     \<lparr> sm_id = ''resp_lp2w0000_bbbbbbbbb'', sm_name = JStr ''Oldest'',
       sm_timestamp = ''2023-11-12T08:00:00.000Z'', sm_mobile = ''9000000002'' \<rparr>"

definition sampleQueryEnv :: queryEnv where
  "sampleQueryEnv =
     \<lparr> qe_nowSession = 1700000060000,
       qe_nowCacheCheck = 1700000060001,
       qe_nowCachePut = 1700000060002,
       qe_parseInt = (\<lambda>s. if s = ''1'' then Num 1 else if s = ''50'' then Num 50 else NaN),
       qe_filterResponses = (\<lambda>fs rs. Inr rs),
       qe_sortResponses = (\<lambda>by order rs. Inr (rev rs)),
       qe_kvFails = (\<lambda>n. False),
       qe_fetchFails = (\<lambda>id. False) \<rparr>"

definition publicSearchRequest :: getRequest where
  "publicSearchRequest =
     \<lparr> gr_cookie = None,
       gr_params = [''public'' \<mapsto> ''1'', ''search'' \<mapsto> ''asha''] \<rparr>"

definition staleCookieRequest :: getRequest where
  "staleCookieRequest =
     \<lparr> gr_cookie = Some ''theme=dark; admin_session'',
       gr_params = [''search'' \<mapsto> ''asha''] \<rparr>"

definition sampleRecord :: responseData where
  "sampleRecord =
     \<lparr> r_id = ''resp_lp3x9k2a_4f7h2k9qz'', r_name = JStr ''Asha Rao'', r_dob = JStr ''2001-05-17'',
       r_mobile = ''9123456789'', r_father = JStr ''Ravi Rao'', r_aadhar = ''234123412340'',
       r_timestamp = ''2023-11-14T22:13:20.000Z'', r_ip = ''203.0.113.7'',
       r_userAgent = ''Mozilla/5.0'' \<rparr>"

definition oneRecordStore :: kvStore where
  "oneRecordStore =
     emptyStore\<lparr> kv_responses := [''resp_lp3x9k2a_4f7h2k9qz'' \<mapsto> sampleRecord],
                 kv_responsesList := Some [''resp_lp3x9k2a_4f7h2k9qz''],
                 kv_stats := Some \<lparr> st_total = 1, st_today = 1,
                                     st_lastUpdated = Some ''2023-11-14T22:13:20.000Z'' \<rparr>,
                 kv_lastSubmissionDate := Some ''2023-11-14'' \<rparr>"

definition sampleSession :: session where
  "sampleSession =
     \<lparr> ss_loggedIn = True, ss_timestamp = 1700000000000, ss_ip = ''198.51.100.4'',
       ss_userAgent = ''Mozilla/5.0'', ss_lastActivity = None \<rparr>"

definition sessionStore :: kvStore where
  "sessionStore = emptyStore\<lparr> kv_sessions := [''sess_lp3x9k2a_0123456789abcdef'' \<mapsto> (sampleSession, 86400)] \<rparr>"

definition sampleLoginEnv :: loginEnv where
  "sampleLoginEnv =
     \<lparr> le_nowCheck = 1700003600000, le_nowActivity = 1700003600001, le_kvFails = (\<lambda>n. False) \<rparr>"

section \<open>Properties\<close>

lemma aadharLoop_sum:
  "i \<le> 11 \<Longrightarrow>
   aadharLoop cleaned i acc = acc + (\<Sum>k = i..<11. spec_weight k (parseIntDigit (cleaned ! k)))"
proof (induction cleaned i acc rule: aadharLoop.induct)
  case (1 cleaned i acc)
  show ?case
  proof (cases "i < 11")
    case False
    with "1.prems" have "i = 11" by simp
    then show ?thesis by (simp add: aadharLoop.simps[of cleaned 11 acc])
  next
    case True
    have split: "(\<Sum>k = i..<11. spec_weight k (parseIntDigit (cleaned ! k)))
        = spec_weight i (parseIntDigit (cleaned ! i))
          + (\<Sum>k = Suc i..<11. spec_weight k (parseIntDigit (cleaned ! k)))"
      using True by (simp add: sum.atLeast_Suc_lessThan)
    show ?thesis
    proof (cases "i mod 2 = 0")
      case even: True
      have wi: "spec_weight i (parseIntDigit (cleaned ! i)) = parseIntDigit (cleaned ! i)"
        using even by (simp add: spec_weight_def even_iff_mod_2_eq_zero)
      have "aadharLoop cleaned i acc
          = aadharLoop cleaned (i + 1) (acc + parseIntDigit (cleaned ! i))"
        using True even by (simp add: aadharLoop.simps[of cleaned i acc] Let_def)
      also have "\<dots> = acc + parseIntDigit (cleaned ! i)
          + (\<Sum>k = Suc i..<11. spec_weight k (parseIntDigit (cleaned ! k)))"
        using "1.IH"(1)[OF True refl even] True by simp
      finally show ?thesis
        using wi by (simp add: split)
    next
      case odd: False
      let ?d = "parseIntDigit (cleaned ! i)"
      let ?w = "if ?d * 2 > 9 then ?d * 2 - 9 else ?d * 2"
      have wi: "spec_weight i ?d = ?w"
        using odd by (simp add: spec_weight_def even_iff_mod_2_eq_zero mult.commute)
      have "aadharLoop cleaned i acc = aadharLoop cleaned (i + 1) (acc + ?w)"
        using True odd by (simp add: aadharLoop.simps[of cleaned i acc] Let_def)
      also have "\<dots> = acc + ?w
          + (\<Sum>k = Suc i..<11. spec_weight k (parseIntDigit (cleaned ! k)))"
        using "1.IH"(2)[OF True refl odd refl] True by simp
      finally show ?thesis
        using wi by (simp add: split)
    qed
  qed
qed

text \<open>
  C1. For every input string, \<open>validateAadhar\<close> answers true exactly when the string
  with its non-digit characters removed has twelve characters and the twelfth digit is
  \<open>(10 - S mod 10) mod 10\<close>, where \<open>S\<close> is the alternating-weight sum over the first
  eleven digits. A string whose digit-stripped form is not twelve digits long is
  therefore rejected.
\<close>

theorem validateAadhar_checksum:
  "validateAadhar v =
     (length (stripNonDigits v) = 12 \<and>
      parseIntDigit (stripNonDigits v ! 11) = (10 - spec_checksum (stripNonDigits v) mod 10) mod 10)"
proof -
  have "aadharLoop (stripNonDigits v) 0 0 = spec_checksum (stripNonDigits v)"
    using aadharLoop_sum[of 0 "stripNonDigits v" 0]
    by (simp add: spec_checksum_def atLeast0LessThan)
  then show ?thesis
    by (auto simp: validateAadhar_def Let_def)
qed

lemma take_drop_nth: "take k (drop j xs) = map (\<lambda>i. xs ! i) [j ..< min (j + k) (length xs)]"
  by (rule nth_equalityI) (auto simp: min_def split: if_splits)

text \<open>
  C4. For every list and all positive integers \<open>page\<close> and \<open>limit\<close>, the page has at
  most \<open>limit\<close> items, these are the entries of the input at the positions from
  \<open>(page - 1) * limit\<close> up to, not including, \<open>page * limit\<close> (as far as the list
  goes), \<open>totalPages\<close> is the ceiling of \<open>totalItems / limit\<close>, \<open>hasNextPage\<close> says
  \<open>page < totalPages\<close> and \<open>hasPrevPage\<close> says \<open>page > 1\<close>.
\<close>

theorem paginateArray_valid:
  assumes "1 \<le> page" "1 \<le> limit" "r = paginateArray xs (Num page) (Num limit)"
  shows "length (pd_items r) \<le> nat limit \<and>
     pd_items r = map (\<lambda>i. xs ! i) [nat ((page - 1) * limit) ..< min (nat (page * limit)) (length xs)] \<and>
     pg_totalItems (pd_pagination r) = length xs \<and>
     pg_totalPages (pd_pagination r) = Num \<lceil>real (length xs) / real_of_int limit\<rceil> \<and>
     pg_hasNextPage (pd_pagination r) = (page < \<lceil>real (length xs) / real_of_int limit\<rceil>) \<and>
     pg_hasPrevPage (pd_pagination r) = (page > 1)"
proof -
  let ?j = "nat ((page - 1) * limit)"
  have off: "jsMul (jsSub (Num page) (Num 1)) (Num limit) = Num ((page - 1) * limit)"
    using assms(1,2) by (auto simp: jsMul_def jsSub_def Let_def)
  have nn: "0 \<le> (page - 1) * limit" using assms(1,2) by simp
  have endv: "jsAdd (Num ((page - 1) * limit)) (Num limit) = Num (page * limit)"
    by (simp add: algebra_simps)
  have pl: "nat (page * limit) = ?j + nat limit"
    using assms(1,2) nn by (simp add: algebra_simps nat_add_distrib[symmetric])
  have ceil: "\<lceil>real (length xs) / real_of_int limit\<rceil> = - ((- int (length xs)) div limit)"
    using ceiling_divide_eq_div[of "int (length xs)" limit] by simp
  have tp: "ceilQuotient (length xs) (Num limit) = Num (- ((- int (length xs)) div limit))"
    using assms(2) by (simp add: Let_def)
  have pn: "0 \<le> page * limit" using assms(1,2) by simp
  have k: "relativeIndex (length xs) (Num ((page - 1) * limit)) = min ?j (length xs)"
    using nn by (simp add: not_less[symmetric])
  have f: "relativeIndex (length xs) (Num (page * limit)) = min (?j + nat limit) (length xs)"
    using pn pl by (simp add: not_less[symmetric])
  have "slice xs (Num ((page - 1) * limit)) (Num (page * limit))
      = take (nat limit) (drop ?j xs)"
    unfolding slice_def Let_def k f by (cases "?j \<le> length xs") (auto simp: min_def)
  then have items: "pd_items r = take (nat limit) (drop ?j xs)"
    unfolding assms(3) paginateArray_def Let_def off endv by simp
  have pag: "pd_pagination r = \<lparr> pg_page = Num page, pg_limit = Num limit,
             pg_totalItems = length xs, pg_totalPages = Num (- ((- int (length xs)) div limit)),
             pg_hasNextPage = jsLess (Num page) (Num (- ((- int (length xs)) div limit))),
             pg_hasPrevPage = jsLess (Num 1) (Num page) \<rparr>"
    unfolding assms(3) paginateArray_def Let_def tp by simp
  show ?thesis
    unfolding items pag ceil by (simp add: take_drop_nth pl)
qed

theorem paginateArray_valid_witness:
  "(1::int) \<le> 2 \<and> (1::int) \<le> 3 \<and>
   pd_items (paginateArray [10, 20, 30, 40, 50, 60, 70 :: nat] (Num 2) (Num 3)) = [40, 50, 60] \<and>
   pd_pagination (paginateArray [10, 20, 30, 40, 50, 60, 70 :: nat] (Num 2) (Num 3)) =
     \<lparr> pg_page = Num 2, pg_limit = Num 3, pg_totalItems = 7, pg_totalPages = Num 3,
       pg_hasNextPage = True, pg_hasPrevPage = True \<rparr>"
  using paginateArray_valid[of 2 3 "paginateArray [10, 20, 30, 40, 50, 60, 70 :: nat] (Num 2) (Num 3)"
      "[10, 20, 30, 40, 50, 60, 70 :: nat]"]
  by (simp add: paginateArray_def slice_def jsMul_def jsSub_def Let_def)











lemma submitTry_error_keeps_store:
  assumes "submitTry env request limiter kv = (Inr response, limiter', kv')"
    and "rs_status response = 429 \<or> rs_status response = 400"
  shows "kv' = kv"
  using assms
  by (auto simp: submitTry_def Let_def rateLimitedResponse_def badRequest_def createdResponse_def
      split: prod.splits body.splits sum.splits if_splits)







lemmas sample_defs = sampleEnv_def sampleRequest_def sampleForm_def emptyStore_def
lemmas submit_defs = onRequestPost_def submitTry_def Let_def
      clientIPOf_def orElse_def orElseOpt_def checkRateLimit_def objectPrototypeMembers_def RATE_LIMIT_WINDOW_MS_def
      RATE_LIMIT_MAX_REQUESTS_def missingFieldsOf_def requiredFields_def fieldOf_def
      sanitizeForm_def thenE_def sanitizeInput_def trim_def isWhiteSpace_def stripNonDigits_def isDigit_def
      collectValidationErrors_def pushIf_def validateDOB_def validateIndianMobile_def
      matchesMobilePattern_def validateAadhar_def aadharLoop.simps parseIntDigit_def
lemmas store_defs = storeSubmission_def kvThen_def kvPut_def kvGet_def kvReturn_def

text \<open>
  C2. Whenever the submission handler answers 429 or 400 (rate limited, malformed JSON,
  missing fields, validation failure), the record store after the request is the store
  before it: records, index list, recent list, statistics and last submission date are
  all untouched.
\<close>

theorem error_responses_write_nothing:
  assumes "onRequestPost env request limiter kv = (Returned response, limiter', kv')"
    and "rs_status response = 429 \<or> rs_status response = 400"
  shows "kv' = kv"
proof -
  from assms(1) have "submitTry env request limiter kv = (Inr response, limiter', kv')"
    by (auto simp: onRequestPost_def split: prod.splits sum.splits)
  then show ?thesis using assms(2) by (rule submitTry_error_keeps_store)
qed

theorem error_responses_write_nothing_witness:
  "onRequestPost sampleEnv (sampleRequest (sampleForm\<lparr> fd_mobile := JStr ''1234567890'' \<rparr>))
       Map.empty (emptyStore\<lparr> kv_responsesList := Some [''resp_lp3x0000_aaaaaaaaa''] \<rparr>)
     = (Returned (badRequest (ErrorsBody [''Invalid Indian mobile number''])),
        [''203.0.113.7'' \<mapsto> [1700000000000]],
        emptyStore\<lparr> kv_responsesList := Some [''resp_lp3x0000_aaaaaaaaa''] \<rparr>)
   \<and> rs_status (badRequest (ErrorsBody [''Invalid Indian mobile number''])) = 400"
proof -
  have run: "onRequestPost sampleEnv (sampleRequest (sampleForm\<lparr> fd_mobile := JStr ''1234567890'' \<rparr>))
       Map.empty (emptyStore\<lparr> kv_responsesList := Some [''resp_lp3x0000_aaaaaaaaa''] \<rparr>)
     = (Returned (badRequest (ErrorsBody [''Invalid Indian mobile number''])),
        [''203.0.113.7'' \<mapsto> [1700000000000]],
        snd (snd (onRequestPost sampleEnv (sampleRequest (sampleForm\<lparr> fd_mobile := JStr ''1234567890'' \<rparr>))
       Map.empty (emptyStore\<lparr> kv_responsesList := Some [''resp_lp3x0000_aaaaaaaaa''] \<rparr>))))"
    by (simp add: submit_defs sample_defs)
  have st: "rs_status (badRequest (ErrorsBody [''Invalid Indian mobile number''])) = 400"
    by (simp add: badRequest_def)
  show ?thesis
    using error_responses_write_nothing[OF run] st run by simp
qed





lemma storeSubmission_success:
  assumes "storeSubmission env rd kv = (Inr u, kv')"
  shows "kv_responses kv' = (kv_responses kv)(r_id rd \<mapsto> rd)"
    and "kv_recent kv' = Some (take 50
           (\<lparr> sm_id = r_id rd, sm_name = r_name rd, sm_timestamp = r_timestamp rd,
               sm_mobile = r_mobile rd \<rparr>
            # (case kv_recent kv of None \<Rightarrow> [] | Some rs \<Rightarrow> rs)))"
  using assms
  by (auto simp: store_defs Let_def split: if_splits)

text \<open>
  C8. After a submission answered with 201, the recent list is the summary (id, name,
  timestamp, mobile) of the record just stored, put in front of the previous list, cut to
  its first 50 entries: it has at most 50 entries, its first entry is the new summary,
  and what is dropped lies beyond position 50, at the old end of the list.
\<close>

theorem recent_list_after_success:
  assumes "onRequestPost env request limiter kv = (Returned response, limiter', kv')"
    and "rs_status response = 201"
    and "previous = (case kv_recent kv of None \<Rightarrow> [] | Some rs \<Rightarrow> rs)"
  shows "\<exists>record recent.
      kv_responses kv' (se_responseId env) = Some record
    \<and> r_id record = se_responseId env
    \<and> kv_recent kv' = Some recent
    \<and> recent = take 50 (\<lparr> sm_id = r_id record, sm_name = r_name record,
                           sm_timestamp = r_timestamp record, sm_mobile = r_mobile record \<rparr> # previous)
    \<and> length recent \<le> 50
    \<and> hd recent = \<lparr> sm_id = r_id record, sm_name = r_name record,
                     sm_timestamp = r_timestamp record, sm_mobile = r_mobile record \<rparr>
    \<and> tl recent = take 49 previous"
proof -
  from assms(1) have tr: "submitTry env request limiter kv = (Inr response, limiter', kv')"
    by (auto simp: onRequestPost_def split: prod.splits sum.splits)
  from tr assms(2) have "\<exists>rd. storeSubmission env rd kv = (Inr (), kv') \<and> r_id rd = se_responseId env"
    by (fastforce simp: submitTry_def Let_def rateLimitedResponse_def badRequest_def
        split: prod.splits body.splits sum.splits if_splits)
  then obtain rd where st: "storeSubmission env rd kv = (Inr (), kv')"
    and rid: "r_id rd = se_responseId env"
    by blast
  let ?s = "\<lparr> sm_id = r_id rd, sm_name = r_name rd, sm_timestamp = r_timestamp rd,
               sm_mobile = r_mobile rd \<rparr>"
  have "kv_responses kv' (se_responseId env) = Some rd"
    using storeSubmission_success(1)[OF st] rid by simp
  moreover have "kv_recent kv' = Some (take 50 (?s # previous))"
    using storeSubmission_success(2)[OF st] assms(3) by simp
  moreover have "length (take 50 (?s # previous)) \<le> 50" by simp
  moreover have "hd (take 50 (?s # previous)) = ?s" by (simp add: take_Cons')
  moreover have "tl (take 50 (?s # previous)) = take 49 previous" by (simp add: take_Cons')
  ultimately show ?thesis using rid by blast
qed

theorem recent_list_after_success_witness:
  "fst (onRequestPost sampleEnv (sampleRequest sampleForm) Map.empty
         (emptyStore\<lparr> kv_recent := Some (replicate 49 olderSummary @ [oldestSummary]) \<rparr>))
     = Returned (createdResponse ''resp_lp3x9k2a_4f7h2k9qz'' ''2023-11-14T22:13:20.000Z'' (JStr ''Asha Rao''))
   \<and> rs_status (createdResponse ''resp_lp3x9k2a_4f7h2k9qz'' ''2023-11-14T22:13:20.000Z'' (JStr ''Asha Rao'')) = 201
   \<and> kv_recent (snd (snd (onRequestPost sampleEnv (sampleRequest sampleForm) Map.empty
         (emptyStore\<lparr> kv_recent := Some (replicate 49 olderSummary @ [oldestSummary]) \<rparr>))))
     = Some (\<lparr> sm_id = ''resp_lp3x9k2a_4f7h2k9qz'', sm_name = JStr ''Asha Rao'',
               sm_timestamp = ''2023-11-14T22:13:20.000Z'', sm_mobile = ''9123456789'' \<rparr>
             # replicate 49 olderSummary)"
proof -
  let ?kv = "emptyStore\<lparr> kv_recent := Some (replicate 49 olderSummary @ [oldestSummary]) \<rparr>"
  let ?out = "onRequestPost sampleEnv (sampleRequest sampleForm) Map.empty ?kv"
  let ?resp = "createdResponse ''resp_lp3x9k2a_4f7h2k9qz'' ''2023-11-14T22:13:20.000Z'' (JStr ''Asha Rao'')"
  have run: "?out = (Returned ?resp, fst (snd ?out), snd (snd ?out))"
    by (simp add: submit_defs sample_defs store_defs)
  have st: "rs_status ?resp = 201"
    by (simp add: createdResponse_def)
  have prev: "replicate 49 olderSummary @ [oldestSummary] = (case kv_recent ?kv of None \<Rightarrow> [] | Some rs \<Rightarrow> rs)"
    by simp
  from recent_list_after_success[OF run st prev]
  obtain stored recent where r: "kv_responses (snd (snd ?out)) (se_responseId sampleEnv) = Some stored"
    and k: "kv_recent (snd (snd ?out)) = Some recent"
    and h: "hd recent = \<lparr> sm_id = r_id stored, sm_name = r_name stored,
                     sm_timestamp = r_timestamp stored, sm_mobile = r_mobile stored \<rparr>"
    and t: "tl recent = take 49 (replicate 49 olderSummary @ [oldestSummary])"
    and e: "recent = take 50 (\<lparr> sm_id = r_id stored, sm_name = r_name stored,
                           sm_timestamp = r_timestamp stored, sm_mobile = r_mobile stored \<rparr>
              # (replicate 49 olderSummary @ [oldestSummary]))"
    by blast
  have stored_eq: "kv_responses (snd (snd ?out)) (se_responseId sampleEnv)
     = Some \<lparr> r_id = ''resp_lp3x9k2a_4f7h2k9qz'', r_name = JStr ''Asha Rao'', r_dob = JStr ''2001-05-17'',
              r_mobile = ''9123456789'', r_father = JStr ''Ravi Rao'', r_aadhar = ''234123412340'',
              r_timestamp = ''2023-11-14T22:13:20.000Z'', r_ip = ''203.0.113.7'',
              r_userAgent = ''Mozilla/5.0'' \<rparr>"
    by (simp add: submit_defs sample_defs store_defs)
  have "stored = \<lparr> r_id = ''resp_lp3x9k2a_4f7h2k9qz'', r_name = JStr ''Asha Rao'', r_dob = JStr ''2001-05-17'',
              r_mobile = ''9123456789'', r_father = JStr ''Ravi Rao'', r_aadhar = ''234123412340'',
              r_timestamp = ''2023-11-14T22:13:20.000Z'', r_ip = ''203.0.113.7'',
              r_userAgent = ''Mozilla/5.0'' \<rparr>"
    using r stored_eq by simp
  then have "recent = \<lparr> sm_id = ''resp_lp3x9k2a_4f7h2k9qz'', sm_name = JStr ''Asha Rao'',
               sm_timestamp = ''2023-11-14T22:13:20.000Z'', sm_mobile = ''9123456789'' \<rparr>
             # replicate 49 olderSummary"
    using e by (simp add: take_Cons')
  moreover have "fst ?out = Returned ?resp"
    using run by (metis fst_conv)
  ultimately show ?thesis using k st by simp
qed

lemmas kv_defs = kvThen_def kvGet_def kvPut_def kvReturn_def kvThrow_def kvRead_def

lemma validateAdminSession_true_keeps_store:
  "validateAdminSession env request kv = (True, kv1) \<Longrightarrow> kv1 = kv"
  by (auto simp: validateAdminSession_def sessionCheck_def kv_defs
      split: option.splits if_splits prod.splits sum.splits)

lemma validateAdminSession_true_iff:
  "fst (validateAdminSession env request kv) =
     (\<exists>cookieHeader sessionId s ttl.
        gr_cookie request = Some cookieHeader \<and> cookieHeader \<noteq> []
      \<and> adminSessionOf cookieHeader = Some sessionId \<and> sessionId \<noteq> []
      \<and> \<not> qe_kvFails env 0
      \<and> kv_sessions kv sessionId = Some (s, ttl)
      \<and> ss_loggedIn s
      \<and> qe_nowSession env - ss_timestamp s \<le> 24 * 60 * 60 * 1000)"
  by (auto simp: validateAdminSession_def sessionCheck_def kv_defs
      split: option.splits if_splits prod.splits sum.splits)

lemma sessionCheck_error_is_false:
  "sessionCheck env request kv = (Inl e, kv') \<Longrightarrow> validateAdminSession env request kv = (False, kv')"
  by (simp add: validateAdminSession_def)

lemma onRequestGet_unauthorized:
  assumes "gr_params request ''public'' = None" and "\<not> fst (validateAdminSession env request kv)"
  shows "onRequestGet env request kv = (unauthorizedResponse, snd (validateAdminSession env request kv))"
proof -
  obtain kv1 where "validateAdminSession env request kv = (False, kv1)"
    using assms(2) by (cases "validateAdminSession env request kv") auto
  then show ?thesis
    using assms(1) by (simp add: onRequestGet_def queryTry_def kv_defs Let_def)
qed

lemma queryMiss_ok:
  assumes "queryMiss env q kv = (Inr response, kv')"
    and "index = (case kv_responsesList kv of None \<Rightarrow> [] | Some ids \<Rightarrow> ids)"
  shows "\<exists>payload. response = okResponse ''MISS'' payload
     \<and> kv_cache kv' (cacheKeyOf q) = Some \<lparr> ce_data = payload, ce_timestamp = qe_nowCachePut env \<rparr>
     \<and> (index = [] \<longrightarrow> payload = emptyResponse (q_limit q))
     \<and> (index \<noteq> [] \<longrightarrow>
          (\<exists>filtered sorted.
              qe_filterResponses env (q_filters q) (fetchAll env index kv) = Inr filtered
            \<and> qe_sortResponses env (q_sortBy q) (q_sortOrder q) filtered = Inr sorted
            \<and> payload =
                \<lparr> qp_data = pd_items (paginateArray sorted (q_page q) (q_limit q)),
                  qp_pagination = pd_pagination (paginateArray sorted (q_page q) (q_limit q)),
                  qp_stats = (case kv_stats kv of
                                None \<Rightarrow> \<lparr> st_total = 0, st_today = 0, st_lastUpdated = None \<rparr>
                              | Some st \<Rightarrow> st),
                  qp_filters = Some (q_filters q),
                  qp_sort = Some \<lparr> so_by = q_sortBy q, so_order = q_sortOrder q \<rparr> \<rparr>))"
  using assms
  by (auto simp: queryMiss_def kv_defs Let_def split: if_splits sum.splits option.splits)

lemma queryTry_cases:
  assumes "queryTry env request kv = (Inr response, kv')"
  shows "response = unauthorizedResponse
     \<or> (\<exists>payload. response = okResponse ''HIT'' payload)
     \<or> queryMiss env (queryOf env request) kv = (Inr response, kv')"
proof (cases "gr_params request ''public'' = None")
  case False
  then show ?thesis
    using assms
    by (auto simp: queryTry_def kv_defs Let_def split: if_splits option.splits)
next
  case True
  obtain valid kv1 where v: "validateAdminSession env request kv = (valid, kv1)"
    by (cases "validateAdminSession env request kv") auto
  show ?thesis
  proof (cases valid)
    case False
    then show ?thesis
      using assms True v by (simp add: queryTry_def kv_defs Let_def)
  next
    case valid: True
    then have "kv1 = kv" using v validateAdminSession_true_keeps_store[of env request kv kv1] by simp
    then show ?thesis
      using assms True v valid
      by (auto simp: queryTry_def kv_defs Let_def split: if_splits option.splits)
  qed
qed

text \<open>
  C6, as the code has it. A successful answer that does not come from the cache is stored
  in the cache under the key of the query. When the index is not empty it holds the page
  items and the pagination metadata of \<^verbatim>\<open>paginateArray\<close> on the filtered and sorted
  records, the statistics read from the store (zeros when none are stored), and the
  filters and the sort of the query. When the index is empty it is the fixed empty page:
  no items, page 1 with zero totals, zero statistics, and neither filters nor sort.
\<close>

theorem query_miss_response:
  assumes "onRequestGet env request kv = (response, kv')"
    and "rs_status response = 200"
    and "(''X-Cache'', ''MISS'') \<in> set (rs_headers response)"
    and "q = queryOf env request"
    and "index = (case kv_responsesList kv of None \<Rightarrow> [] | Some ids \<Rightarrow> ids)"
  shows "\<exists>payload. rs_body response = PageBody payload
     \<and> kv_cache kv' (cacheKeyOf q) = Some \<lparr> ce_data = payload, ce_timestamp = qe_nowCachePut env \<rparr>
     \<and> (index = [] \<longrightarrow> payload = emptyResponse (q_limit q))
     \<and> (index \<noteq> [] \<longrightarrow>
          (\<exists>filtered sorted.
              qe_filterResponses env (q_filters q) (fetchAll env index kv) = Inr filtered
            \<and> qe_sortResponses env (q_sortBy q) (q_sortOrder q) filtered = Inr sorted
            \<and> payload =
                \<lparr> qp_data = pd_items (paginateArray sorted (q_page q) (q_limit q)),
                  qp_pagination = pd_pagination (paginateArray sorted (q_page q) (q_limit q)),
                  qp_stats = (case kv_stats kv of
                                None \<Rightarrow> \<lparr> st_total = 0, st_today = 0, st_lastUpdated = None \<rparr>
                              | Some st \<Rightarrow> st),
                  qp_filters = Some (q_filters q),
                  qp_sort = Some \<lparr> so_by = q_sortBy q, so_order = q_sortOrder q \<rparr> \<rparr>))"
proof -
  from assms(1,2) have tr: "queryTry env request kv = (Inr response, kv')"
    by (auto simp: onRequestGet_def fetchFailedResponse_def split: prod.splits sum.splits)
  have "response \<noteq> unauthorizedResponse"
    using assms(2) by (auto simp: unauthorizedResponse_def)
  moreover have "\<not> (\<exists>payload. response = okResponse ''HIT'' payload)"
    using assms(3) by (auto simp: okResponse_def)
  ultimately have "queryMiss env q kv = (Inr response, kv')"
    using queryTry_cases[OF tr] assms(4) by blast
  from queryMiss_ok[OF this assms(5)] show ?thesis
    by (auto simp: okResponse_def)
qed

lemmas query_defs = onRequestGet_def queryTry_def queryMiss_def queryOf_def cacheKeyOf_def
  validateAdminSession_def sessionCheck_def adminSessionOf_def fromEntries_def split_def
  fetchAll_def fetchBatches.simps orElse_def mathMin_def CACHE_TTL_def Let_def
lemmas query_sample_defs = sampleQueryEnv_def publicSearchRequest_def staleCookieRequest_def
  emptyStore_def oneRecordStore_def sampleRecord_def

theorem query_miss_response_witness:
  "rs_status (fst (onRequestGet sampleQueryEnv publicSearchRequest oneRecordStore)) = 200
   \<and> (''X-Cache'', ''MISS'') \<in> set (rs_headers (fst (onRequestGet sampleQueryEnv publicSearchRequest oneRecordStore)))
   \<and> (case kv_responsesList oneRecordStore of None \<Rightarrow> [] | Some ids \<Rightarrow> ids) = [''resp_lp3x9k2a_4f7h2k9qz'']
   \<and> rs_body (fst (onRequestGet sampleQueryEnv publicSearchRequest oneRecordStore)) =
       PageBody \<lparr> qp_data = [sampleRecord],
                  qp_pagination = \<lparr> pg_page = Num 1, pg_limit = Num 50, pg_totalItems = 1,
                                     pg_totalPages = Num 1, pg_hasNextPage = False, pg_hasPrevPage = False \<rparr>,
                  qp_stats = \<lparr> st_total = 1, st_today = 1, st_lastUpdated = Some ''2023-11-14T22:13:20.000Z'' \<rparr>,
                  qp_filters = Some \<lparr> f_search = Some ''asha'', f_startDate = None, f_endDate = None,
                                      f_mobile = None, f_aadhar = None \<rparr>,
                  qp_sort = Some \<lparr> so_by = ''timestamp'', so_order = ''desc'' \<rparr> \<rparr>"
proof -
  let ?out = "onRequestGet sampleQueryEnv publicSearchRequest oneRecordStore"
  have run: "?out = (fst ?out, snd ?out)" by simp
  have st: "rs_status (fst ?out) = 200"
    and hd: "(''X-Cache'', ''MISS'') \<in> set (rs_headers (fst ?out))"
    and body: "rs_body (fst ?out) =
       PageBody \<lparr> qp_data = [sampleRecord],
                  qp_pagination = \<lparr> pg_page = Num 1, pg_limit = Num 50, pg_totalItems = 1,
                                     pg_totalPages = Num 1, pg_hasNextPage = False, pg_hasPrevPage = False \<rparr>,
                  qp_stats = \<lparr> st_total = 1, st_today = 1, st_lastUpdated = Some ''2023-11-14T22:13:20.000Z'' \<rparr>,
                  qp_filters = Some \<lparr> f_search = Some ''asha'', f_startDate = None, f_endDate = None,
                                      f_mobile = None, f_aadhar = None \<rparr>,
                  qp_sort = Some \<lparr> so_by = ''timestamp'', so_order = ''desc'' \<rparr> \<rparr>"
    by (simp_all add: query_defs query_sample_defs kv_defs okResponse_def paginateArray_def slice_def
        jsMul_def jsSub_def)
  have ix: "(case kv_responsesList oneRecordStore of None \<Rightarrow> [] | Some ids \<Rightarrow> ids) = [''resp_lp3x9k2a_4f7h2k9qz'']"
    by (simp add: oneRecordStore_def)
  show ?thesis
    using query_miss_response[OF run st hd refl ix[symmetric]] st hd body ix by simp
qed

theorem empty_index_page_omits_echo:
  "rs_status (fst (onRequestGet sampleQueryEnv publicSearchRequest emptyStore)) = 200
   \<and> (''X-Cache'', ''MISS'') \<in> set (rs_headers (fst (onRequestGet sampleQueryEnv publicSearchRequest emptyStore)))
   \<and> rs_body (fst (onRequestGet sampleQueryEnv publicSearchRequest emptyStore)) = PageBody (emptyResponse (Num 50))
   \<and> q_filters (queryOf sampleQueryEnv publicSearchRequest)
       = \<lparr> f_search = Some ''asha'', f_startDate = None, f_endDate = None, f_mobile = None, f_aadhar = None \<rparr>
   \<and> qp_filters (emptyResponse (Num 50)) = None
   \<and> qp_sort (emptyResponse (Num 50)) = None"
  by (simp add: query_defs query_sample_defs kv_defs okResponse_def emptyResponse_def)

lemma onRequestGet_public_ignores_cookie:
  assumes "gr_params request ''public'' \<noteq> None"
  shows "onRequestGet env (request\<lparr> gr_cookie := anyCookie \<rparr>) kv = onRequestGet env request kv"
proof -
  from assms obtain y where "gr_params request ''public'' = Some y" by auto
  then show ?thesis
    by (simp add: onRequestGet_def queryTry_def queryOf_def Let_def)
qed

lemma queryMiss_keeps_sessions:
  "kv_sessions (snd (queryMiss env q kv)) = kv_sessions kv"
  by (auto simp: queryMiss_def kv_defs Let_def split: if_splits sum.splits option.splits)

lemma onRequestGet_public_keeps_sessions:
  assumes "gr_params request ''public'' \<noteq> None"
  shows "kv_sessions (snd (onRequestGet env request kv)) = kv_sessions kv"
proof -
  from assms obtain y where "gr_params request ''public'' = Some y" by auto
  then have "kv_sessions (snd (queryTry env request kv)) = kv_sessions kv"
    using queryMiss_keeps_sessions[of env "queryOf env request" kv]
    by (auto simp: queryTry_def kv_defs Let_def split: if_splits option.splits)
  then show ?thesis
    by (auto simp: onRequestGet_def split: prod.splits sum.splits)
qed

text \<open>
  C10, as the code has it. \<^verbatim>\<open>validateAdminSession\<close> answers with a boolean for every
  cookie header and every store: an exception inside it (a failing KV call) becomes
  false, an absent cookie gives false, and it gives true exactly for a cookie naming a
  stored, logged-in session not older than 24 hours. A request without the \<^verbatim>\<open>public\<close>
  parameter for which it answers false receives the 401 response. A request with the
  \<^verbatim>\<open>public\<close> parameter is not session-checked at all: its answer and the store after
  it are the same whatever cookie it carries, and the stored sessions are left as they
  are.
\<close>

theorem admin_session_validation_total:
  "(sessionCheck env request kv = (Inl e, kv') \<longrightarrow> validateAdminSession env request kv = (False, kv'))
   \<and> (gr_cookie request = None \<longrightarrow> validateAdminSession env request kv = (False, kv))
   \<and> fst (validateAdminSession env request kv) =
       (\<exists>cookieHeader sessionId s ttl.
          gr_cookie request = Some cookieHeader \<and> cookieHeader \<noteq> []
        \<and> adminSessionOf cookieHeader = Some sessionId \<and> sessionId \<noteq> []
        \<and> \<not> qe_kvFails env 0
        \<and> kv_sessions kv sessionId = Some (s, ttl)
        \<and> ss_loggedIn s
        \<and> qe_nowSession env - ss_timestamp s \<le> 24 * 60 * 60 * 1000)
   \<and> (gr_params request ''public'' = None \<and> \<not> fst (validateAdminSession env request kv)
        \<longrightarrow> fst (onRequestGet env request kv) = unauthorizedResponse
          \<and> rs_status (fst (onRequestGet env request kv)) = 401)
   \<and> (gr_params request ''public'' \<noteq> None
        \<longrightarrow> onRequestGet env (request\<lparr> gr_cookie := anyCookie \<rparr>) kv = onRequestGet env request kv
          \<and> kv_sessions (snd (onRequestGet env request kv)) = kv_sessions kv)"
proof -
  have "gr_cookie request = None \<Longrightarrow> validateAdminSession env request kv = (False, kv)"
    by (simp add: validateAdminSession_def sessionCheck_def kvReturn_def)
  moreover have "gr_params request ''public'' = None \<and> \<not> fst (validateAdminSession env request kv)
        \<longrightarrow> fst (onRequestGet env request kv) = unauthorizedResponse
          \<and> rs_status (fst (onRequestGet env request kv)) = 401"
    using onRequestGet_unauthorized[of request env kv] by (auto simp: unauthorizedResponse_def)
  moreover have "gr_params request ''public'' \<noteq> None
        \<longrightarrow> onRequestGet env (request\<lparr> gr_cookie := anyCookie \<rparr>) kv = onRequestGet env request kv
          \<and> kv_sessions (snd (onRequestGet env request kv)) = kv_sessions kv"
    using onRequestGet_public_ignores_cookie[of request env anyCookie kv]
      onRequestGet_public_keeps_sessions[of request env kv]
    by blast
  ultimately show ?thesis
    using sessionCheck_error_is_false[of env request kv e kv']
      validateAdminSession_true_iff[of env request kv]
    by blast
qed

theorem admin_session_validation_total_witness:
  "sessionCheck (sampleQueryEnv\<lparr> qe_kvFails := (\<lambda>n. True) \<rparr>)
       (staleCookieRequest\<lparr> gr_cookie := Some ''admin_session=sess_lp3x9k2a_0123456789abcdef'' \<rparr>) sessionStore
     = (Inl KVError, sessionStore)
   \<and> validateAdminSession (sampleQueryEnv\<lparr> qe_kvFails := (\<lambda>n. True) \<rparr>)
       (staleCookieRequest\<lparr> gr_cookie := Some ''admin_session=sess_lp3x9k2a_0123456789abcdef'' \<rparr>) sessionStore
     = (False, sessionStore)
   \<and> gr_params (staleCookieRequest\<lparr> gr_cookie := Some ''admin_session=sess_lp3x9k2a_0123456789abcdef'' \<rparr>) ''public'' = None
   \<and> rs_status (fst (onRequestGet (sampleQueryEnv\<lparr> qe_kvFails := (\<lambda>n. True) \<rparr>)
       (staleCookieRequest\<lparr> gr_cookie := Some ''admin_session=sess_lp3x9k2a_0123456789abcdef'' \<rparr>) sessionStore)) = 401
   \<and> gr_params publicSearchRequest ''public'' = Some ''1''
   \<and> onRequestGet sampleQueryEnv (publicSearchRequest\<lparr> gr_cookie := Some ''admin_session=forged'' \<rparr>)
         oneRecordStore
     = onRequestGet sampleQueryEnv publicSearchRequest oneRecordStore
   \<and> kv_sessions (snd (onRequestGet sampleQueryEnv publicSearchRequest oneRecordStore))
     = kv_sessions oneRecordStore"
proof -
  let ?env = "sampleQueryEnv\<lparr> qe_kvFails := (\<lambda>n. True) \<rparr>"
  let ?req = "staleCookieRequest\<lparr> gr_cookie := Some ''admin_session=sess_lp3x9k2a_0123456789abcdef'' \<rparr>"
  have chk: "sessionCheck ?env ?req sessionStore = (Inl KVError, sessionStore)"
    by (simp add: sessionCheck_def adminSessionOf_def fromEntries_def split_def kv_defs
        sampleQueryEnv_def staleCookieRequest_def)
  have pub: "gr_params ?req ''public'' = None"
    by (simp add: staleCookieRequest_def)
  have pub2: "gr_params publicSearchRequest ''public'' = Some ''1''"
    by (simp add: publicSearchRequest_def)
  from admin_session_validation_total[of ?env ?req sessionStore KVError sessionStore] chk pub
  have first: "validateAdminSession ?env ?req sessionStore = (False, sessionStore)
      \<and> rs_status (fst (onRequestGet ?env ?req sessionStore)) = 401"
    by (simp add: unauthorizedResponse_def)
  from admin_session_validation_total[of sampleQueryEnv publicSearchRequest oneRecordStore KVError
      oneRecordStore "Some ''admin_session=forged''"] pub2
  have second: "onRequestGet sampleQueryEnv (publicSearchRequest\<lparr> gr_cookie := Some ''admin_session=forged'' \<rparr>)
         oneRecordStore
     = onRequestGet sampleQueryEnv publicSearchRequest oneRecordStore
     \<and> kv_sessions (snd (onRequestGet sampleQueryEnv publicSearchRequest oneRecordStore))
     = kv_sessions oneRecordStore"
    by simp
  show ?thesis
    using chk pub pub2 first second by simp
qed

theorem public_request_skips_session_check:
  "gr_cookie publicSearchRequest = None
   \<and> validateAdminSession sampleQueryEnv publicSearchRequest oneRecordStore = (False, oneRecordStore)
   \<and> rs_status (fst (onRequestGet sampleQueryEnv publicSearchRequest oneRecordStore)) = 200
   \<and> rs_status (fst (onRequestGet sampleQueryEnv publicSearchRequest oneRecordStore)) \<noteq> 401"
  by (simp add: query_defs query_sample_defs kv_defs okResponse_def paginateArray_def slice_def
        jsMul_def jsSub_def)

lemma loginOnRequestGet_refresh:
  assumes "cookie = Some cookieHeader" "cookieHeader \<noteq> []"
    and "adminSessionOf cookieHeader = Some sessionId" "sessionId \<noteq> []"
    and "\<not> le_kvFails env 0" "\<not> le_kvFails env 1"
    and "kv_sessions kv sessionId = Some (s, ttl)" "ss_loggedIn s"
    and "le_nowCheck env - ss_timestamp s < 24 * 60 * 60 * 1000"
  shows "loginOnRequestGet env cookie kv =
      (sessionInfoResponse True (Some (ss_timestamp s, ss_ip s)),
       kv\<lparr> kv_sessions := (kv_sessions kv)(sessionId \<mapsto>
              (s\<lparr> ss_lastActivity := Some (le_nowActivity env) \<rparr>, SESSION_DURATION)) \<rparr>)"
  using assms
  by (simp add: loginOnRequestGet_def loginGetTry_def kv_defs Let_def)

lemma loginOnRequestGet_expired:
  assumes "cookie = Some cookieHeader" "cookieHeader \<noteq> []"
    and "adminSessionOf cookieHeader = Some sessionId" "sessionId \<noteq> []"
    and "\<not> le_kvFails env 0" "\<not> le_kvFails env 1"
    and "kv_sessions kv sessionId = Some (s, ttl)" "ss_loggedIn s"
    and "le_nowCheck env - ss_timestamp s \<ge> 24 * 60 * 60 * 1000"
  shows "loginOnRequestGet env cookie kv =
      (sessionInfoResponse False None, kv\<lparr> kv_sessions := (kv_sessions kv)(sessionId := None) \<rparr>)"
  using assms
  by (simp add: loginOnRequestGet_def loginGetTry_def kv_defs Let_def)

text \<open>
  C7. When the session check finds the stored session logged in and younger than 24
  hours, it writes the session back with \<^verbatim>\<open>lastActivity\<close> set and nothing else changed:
  \<^verbatim>\<open>loggedIn\<close>, the creation timestamp, \<^verbatim>\<open>ip\<close> and \<^verbatim>\<open>userAgent\<close> are those of before.
  The deadline, 24 hours after the creation timestamp, is therefore not moved by the
  read: a check of the refreshed store at or after the deadline reports the session as
  not logged in and deletes it, and the admin-session validation of the query handler
  rejects it once the deadline has passed.
\<close>

theorem session_refresh_keeps_deadline:
  assumes "cookie = Some cookieHeader" and "cookieHeader \<noteq> []"
    and "adminSessionOf cookieHeader = Some sessionId" and "sessionId \<noteq> []"
    and "\<not> le_kvFails env 0" and "\<not> le_kvFails env 1"
    and "kv_sessions kv sessionId = Some (s, ttl)" and "ss_loggedIn s"
    and "le_nowCheck env - ss_timestamp s < 24 * 60 * 60 * 1000"
    and "s' = s\<lparr> ss_lastActivity := Some (le_nowActivity env) \<rparr>"
    and "kv' = kv\<lparr> kv_sessions := (kv_sessions kv)(sessionId \<mapsto> (s', SESSION_DURATION)) \<rparr>"
  shows "loginOnRequestGet env cookie kv = (sessionInfoResponse True (Some (ss_timestamp s, ss_ip s)), kv')
    \<and> ss_loggedIn s' = ss_loggedIn s \<and> ss_timestamp s' = ss_timestamp s
    \<and> ss_ip s' = ss_ip s \<and> ss_userAgent s' = ss_userAgent s
    \<and> (\<not> le_kvFails later 0 \<and> \<not> le_kvFails later 1
         \<and> le_nowCheck later \<ge> ss_timestamp s + 24 * 60 * 60 * 1000
        \<longrightarrow> loginOnRequestGet later cookie kv' =
              (sessionInfoResponse False None, kv'\<lparr> kv_sessions := (kv_sessions kv')(sessionId := None) \<rparr>))
    \<and> (gr_cookie request = cookie \<and> qe_nowSession qenv > ss_timestamp s + 24 * 60 * 60 * 1000
        \<longrightarrow> \<not> fst (validateAdminSession qenv request kv'))"
proof -
  have stored: "kv_sessions kv' sessionId = Some (s', SESSION_DURATION)"
    and li: "ss_loggedIn s'" and ts: "ss_timestamp s' = ss_timestamp s"
    using assms(8,10,11) by simp_all
  have a: "loginOnRequestGet env cookie kv = (sessionInfoResponse True (Some (ss_timestamp s, ss_ip s)), kv')"
    using loginOnRequestGet_refresh[OF assms(1-9)] assms(10,11) by simp
  have b: "\<not> le_kvFails later 0 \<and> \<not> le_kvFails later 1
         \<and> le_nowCheck later \<ge> ss_timestamp s + 24 * 60 * 60 * 1000
        \<longrightarrow> loginOnRequestGet later cookie kv' =
              (sessionInfoResponse False None, kv'\<lparr> kv_sessions := (kv_sessions kv')(sessionId := None) \<rparr>)"
    using loginOnRequestGet_expired[OF assms(1-4) _ _ stored li, of later] ts by auto
  have c: "gr_cookie request = cookie \<and> qe_nowSession qenv > ss_timestamp s + 24 * 60 * 60 * 1000
        \<longrightarrow> \<not> fst (validateAdminSession qenv request kv')"
    using assms(1,3) stored ts by (auto simp: validateAdminSession_true_iff)
  show ?thesis
    using a b c assms(10) by simp
qed


theorem session_refresh_keeps_deadline_witness:
  "adminSessionOf ''theme=dark; admin_session=sess_lp3x9k2a_0123456789abcdef''
     = Some ''sess_lp3x9k2a_0123456789abcdef''
   \<and> kv_sessions sessionStore ''sess_lp3x9k2a_0123456789abcdef'' = Some (sampleSession, 86400)
   \<and> ss_loggedIn sampleSession
   \<and> le_nowCheck sampleLoginEnv - ss_timestamp sampleSession < 24 * 60 * 60 * 1000
   \<and> loginOnRequestGet sampleLoginEnv (Some ''theme=dark; admin_session=sess_lp3x9k2a_0123456789abcdef'')
         sessionStore
     = (sessionInfoResponse True (Some (1700000000000, ''198.51.100.4'')),
        sessionStore\<lparr> kv_sessions := (kv_sessions sessionStore)(''sess_lp3x9k2a_0123456789abcdef'' \<mapsto>
            (sampleSession\<lparr> ss_lastActivity := Some 1700003600001 \<rparr>, 86400)) \<rparr>)
   \<and> ss_timestamp (sampleSession\<lparr> ss_lastActivity := Some 1700003600001 \<rparr>) = 1700000000000
   \<and> fst (loginOnRequestGet (sampleLoginEnv\<lparr> le_nowCheck := 1700086400000 \<rparr>)
         (Some ''theme=dark; admin_session=sess_lp3x9k2a_0123456789abcdef'')
         (sessionStore\<lparr> kv_sessions := (kv_sessions sessionStore)(''sess_lp3x9k2a_0123456789abcdef'' \<mapsto>
            (sampleSession\<lparr> ss_lastActivity := Some 1700003600001 \<rparr>, 86400)) \<rparr>))
     = sessionInfoResponse False None"
proof -
  let ?sid = "''sess_lp3x9k2a_0123456789abcdef''"
  let ?hdr = "''theme=dark; admin_session=sess_lp3x9k2a_0123456789abcdef''"
  have c: "adminSessionOf ?hdr = Some ?sid"
    by (simp add: adminSessionOf_def fromEntries_def split_def)
  have k: "kv_sessions sessionStore ?sid = Some (sampleSession, 86400)"
    by (simp add: sessionStore_def emptyStore_def)
  have l: "ss_loggedIn sampleSession"
    and t: "le_nowCheck sampleLoginEnv - ss_timestamp sampleSession < 24 * 60 * 60 * 1000"
    and f0: "\<not> le_kvFails sampleLoginEnv 0" and f1: "\<not> le_kvFails sampleLoginEnv 1"
    by (simp_all add: sampleSession_def sampleLoginEnv_def)
  have ne: "?hdr \<noteq> []" "?sid \<noteq> []" by simp_all
  from session_refresh_keeps_deadline[OF refl ne(1) c ne(2) f0 f1 k l t refl refl,
      of "sampleLoginEnv\<lparr> le_nowCheck := 1700086400000 \<rparr>"]
  show ?thesis
    using c k l t
    by (simp add: sampleSession_def sampleLoginEnv_def SESSION_DURATION_def)
qed

end
